theory Spec2Isabelle
  imports Main "HOL-Library.Sublist"
begin

section \<open>Requests, responses and handlers\<close>

text \<open>
  The middleware of \<^verbatim>\<open>src/lib/index.js\<close> works on the server's request and response
  objects. The response is modelled by what the code does to it: the \<^verbatim>\<open>statusCode\<close>
  property, the headers set with \<^verbatim>\<open>setHeader\<close>, the chunks written with \<^verbatim>\<open>write\<close> and
  \<^verbatim>\<open>end\<close> in their order, and whether \<^verbatim>\<open>end\<close> has been called. Header names are
  compared as written (the source spells each name one way only).
\<close>

record response =
  statusCode :: nat
  headers :: "string \<rightharpoonup> string"
  written :: "string list"
  ended :: bool

definition setHeader :: "string \<Rightarrow> string \<Rightarrow> response \<Rightarrow> response" where
  "setHeader field v r = r\<lparr>headers := (headers r)(field \<mapsto> v)\<rparr>"

text \<open>
  \<^verbatim>\<open>res.end(chunk)\<close>: the chunk may be \<^verbatim>\<open>undefined\<close> (\<open>None\<close>), and then nothing is
  written. A response that has ended ignores a second \<^verbatim>\<open>end\<close>.
\<close>

definition res_end :: "string option \<Rightarrow> response \<Rightarrow> response" where
  "res_end chunk r =
     (if ended r then r
      else r\<lparr>written := written r @ (case chunk of None \<Rightarrow> [] | Some s \<Rightarrow> [s]),
             ended := True\<rparr>)"

definition res_write :: "string \<Rightarrow> response \<Rightarrow> response" where
  "res_write s r = (if ended r then r else r\<lparr>written := written r @ [s]\<rparr>)"

text \<open>
  The request: \<^verbatim>\<open>method\<close> and \<^verbatim>\<open>url\<close> come from the server, \<^verbatim>\<open>query\<close> from whoever
  parsed it, \<^verbatim>\<open>pathname\<close> and \<^verbatim>\<open>params\<close> are assigned by the chain before they are
  read. \<open>'v\<close> is the type of the values a page's data holds.
\<close>

record 'v request =
  http_method :: string
  url :: string
  pathname :: string
  params :: 'v
  query :: 'v

record 'v ctx =
  req :: "'v request"
  res :: response

text \<open>
  A handler is \<^verbatim>\<open>(req, res, next) => void\<close>. What it does to a request is a tree: it
  returns (\<open>Return\<close>, with the request and response as it leaves them), or it calls
  \<^verbatim>\<open>next()\<close> (\<open>Next\<close>, with the state at the call) and goes on, from the state in which
  \<^verbatim>\<open>next()\<close> came back, with the rest of its work. Nothing keeps a handler from calling
  \<^verbatim>\<open>next\<close> more than once. Work a handler defers to a later tick is work of the same
  tree: one request is handled by one thread of control. The handlers of this file do
  not throw into the chain: what a route throws is caught in \<open>find_route\<close>.
\<close>

datatype 'w act = Return 'w | Next 'w "'w \<Rightarrow> 'w act"

type_synonym 'w handler = "'w \<Rightarrow> 'w act"

section \<open>compose_handlers\<close>

text \<open>
  \<^verbatim>\<open>
  function compose_handlers(handlers) {
    return (req, res, next) => {
      let i = 0;
      function go() {
        const handler = handlers[i];
        if (handler) {
          handler(req, res, () => { i += 1; go(); });
        } else {
          next();
        }
      }
      go();
    };
  }
  \<close>
  The state of one call of the composed handler is the cursor \<open>i\<close>, the request and
  response (\<open>world\<close>), and a trace that records, for the claims about order, every
  start of a handler, every call of a continuation (\<open>Proceed k\<close> is the continuation
  given to handler \<open>k\<close>) and every call of the outer \<^verbatim>\<open>next\<close>. Erasing the trace
  leaves the source.

  \<open>go\<close> is the source's \<^verbatim>\<open>go\<close>. \<open>invoke k a\<close> runs what handler \<open>k\<close> does (the tree
  \<open>a\<close>): at a call of its continuation the cursor is incremented and \<open>go\<close> runs, and
  the handler resumes where \<open>go\<close> returned.
\<close>

datatype event = Start nat | Proceed nat | Fallback

record 'w chain =
  cursor :: nat
  trace :: "event list"
  world :: 'w

function (domintros) go :: "'w handler list \<Rightarrow> ('w \<Rightarrow> 'w) \<Rightarrow> 'w chain \<Rightarrow> 'w chain"
  and invoke :: "'w handler list \<Rightarrow> ('w \<Rightarrow> 'w) \<Rightarrow> nat \<Rightarrow> 'w act \<Rightarrow> 'w chain \<Rightarrow> 'w chain"
where
  "go handlers nxt st =
     (if cursor st < length handlers
      then invoke handlers nxt (cursor st) ((handlers ! cursor st) (world st))
             (st\<lparr>trace := trace st @ [Start (cursor st)]\<rparr>)
      else st\<lparr>trace := trace st @ [Fallback], world := nxt (world st)\<rparr>)"
| "invoke handlers nxt k (Return w) st = st\<lparr>world := w\<rparr>"
| "invoke handlers nxt k (Next w c) st =
     (let st' = go handlers nxt
                  (st\<lparr>cursor := cursor st + 1, trace := trace st @ [Proceed k], world := w\<rparr>)
      in invoke handlers nxt k (c (world st')) st')"
  by pat_completeness auto

text \<open>
  Termination: the cursor never goes down, a handler is started only below the end of
  the list, and within one handler each resumption is a subtree of the tree before.
\<close>

lemma go_invoke_cursor:
  "go_invoke_dom (Inl (hs, nxt, st)) \<Longrightarrow> cursor st \<le> cursor (go hs nxt st)"
  "go_invoke_dom (Inr (hs, nxt, k, a, st')) \<Longrightarrow> cursor st' \<le> cursor (invoke hs nxt k a st')"
proof (induct rule: go_invoke.pinduct)
  case (1 handlers nxt st)
  then show ?case by (simp add: go.psimps)
next
  case (2 handlers nxt k w st)
  then show ?case by (simp add: invoke.psimps)
next
  case (3 handlers nxt k w c st)
  then show ?case by (simp add: invoke.psimps Let_def)
qed

definition act_sub :: "('w act \<times> 'w act) set" where
  "act_sub = {(a, b). \<exists>w c x. b = Next w c \<and> a = c x}"

lemma wf_act_sub: "wf act_sub"
proof (rule wfUNIVI)
  fix P :: "'w act \<Rightarrow> bool" and a
  assume step: "\<forall>x. (\<forall>y. (y, x) \<in> act_sub \<longrightarrow> P y) \<longrightarrow> P x"
  show "P a"
  proof (induction a)
    case (Return w)
    show ?case using step by (auto simp: act_sub_def)
  next
    case (Next w c)
    have "\<forall>y. (y, Next w c) \<in> act_sub \<longrightarrow> P y"
      using Next by (auto simp: act_sub_def)
    with step show ?case by blast
  qed
qed

definition go_invoke_rank ::
  "('w handler list \<times> ('w \<Rightarrow> 'w) \<times> 'w chain) +
   ('w handler list \<times> ('w \<Rightarrow> 'w) \<times> nat \<times> 'w act \<times> 'w chain) \<Rightarrow> nat \<times> 'w act" where
  "go_invoke_rank x =
     (case x of
        Inl (hs, nxt, st) \<Rightarrow>
          (if length hs \<le> cursor st then 0 else 2 * (length hs - cursor st) + 2,
           Return (world st))
      | Inr (hs, nxt, k, a, st) \<Rightarrow> (2 * (length hs - cursor st) + 1, a))"

termination go
proof (relation "inv_image (less_than <*lex*> act_sub) go_invoke_rank")
  show "wf (inv_image (less_than <*lex*> act_sub) go_invoke_rank)"
    by (intro wf_inv_image wf_lex_prod wf_less_than wf_act_sub)
next
  fix handlers :: "'w handler list" and nxt and st :: "'w chain"
  assume "cursor st < length handlers"
  then show "(Inr (handlers, nxt, cursor st, (handlers ! cursor st) (world st),
                st\<lparr>trace := trace st @ [Start (cursor st)]\<rparr>), Inl (handlers, nxt, st))
             \<in> inv_image (less_than <*lex*> act_sub) go_invoke_rank"
    by (simp add: go_invoke_rank_def)
next
  fix handlers :: "'w handler list" and nxt k w c and st :: "'w chain"
  show "(Inl (handlers, nxt,
              st\<lparr>cursor := cursor st + 1, trace := trace st @ [Proceed k], world := w\<rparr>),
         Inr (handlers, nxt, k, Next w c, st))
        \<in> inv_image (less_than <*lex*> act_sub) go_invoke_rank"
    by (auto simp: go_invoke_rank_def)
next
  fix handlers :: "'w handler list" and nxt k w c and st x :: "'w chain"
  assume x: "x = go handlers nxt
                   (st\<lparr>cursor := cursor st + 1, trace := trace st @ [Proceed k], world := w\<rparr>)"
    and dom: "go_invoke_dom (Inl (handlers, nxt,
                st\<lparr>cursor := cursor st + 1, trace := trace st @ [Proceed k], world := w\<rparr>))"
  have "cursor st \<le> cursor x"
    using go_invoke_cursor(1)[OF dom] x by simp
  then show "(Inr (handlers, nxt, k, c (world x), x), Inr (handlers, nxt, k, Next w c, st))
        \<in> inv_image (less_than <*lex*> act_sub) go_invoke_rank"
    by (auto simp: go_invoke_rank_def act_sub_def)
qed

declare go.simps [simp del]

text \<open>
  The composed handler, called with a request and response \<open>w\<close> and the outer
  continuation \<open>nxt\<close>: the cursor starts at 0.
\<close>

definition compose_handlers :: "'w handler list \<Rightarrow> 'w \<Rightarrow> ('w \<Rightarrow> 'w) \<Rightarrow> 'w chain" where
  "compose_handlers handlers w nxt = go handlers nxt \<lparr>cursor = 0, trace = [], world = w\<rparr>"

text \<open>
  For the claims about order: a handler that calls its continuation at most once (after
  the call it only returns), the calls of continuations in a trace, and the trace of
  handlers \<open>i\<close> up to \<open>j\<close> taking their turns, each started and then calling its
  continuation.
\<close>

definition proceeds_at_most_once :: "'w handler \<Rightarrow> bool" where
  "proceeds_at_most_once h \<longleftrightarrow> (\<forall>w w' c x. h w = Next w' c \<longrightarrow> (\<exists>y. c x = Return y))"

fun is_proceed :: "event \<Rightarrow> bool" where
  "is_proceed (Proceed k) = True"
| "is_proceed e = False"

definition in_turn :: "nat \<Rightarrow> nat \<Rightarrow> event list" where
  "in_turn i j = concat (map (\<lambda>k. [Start k, Proceed k]) [i..<j])"

section \<open>set_req_pathname\<close>

text \<open>
  \<^verbatim>\<open>req.pathname = req.url.replace(/\?.+/, ''); next();\<close>

  The pattern is a question mark followed by one or more characters other than line
  terminators, as many as there are. \<open>match_query s\<close> matches it at the start of \<open>s\<close>
  and returns what follows the match; \<open>replace_query\<close> tries every start from the
  left and deletes the first match, as \<^verbatim>\<open>replace\<close> does for a pattern without the
  \<^verbatim>\<open>g\<close> flag. Of JavaScript's line terminators, line feed and carriage return are
  characters of \<open>string\<close>.
\<close>

definition line_terminator :: "char \<Rightarrow> bool" where
  "line_terminator ch \<longleftrightarrow> ch = CHR 0x0A \<or> ch = CHR 0x0D"

fun match_query :: "string \<Rightarrow> string option" where
  "match_query (q # d # rest) =
     (if q = CHR ''?'' \<and> \<not> line_terminator d
      then Some (dropWhile (\<lambda>x. \<not> line_terminator x) rest) else None)"
| "match_query s = None"

fun replace_query :: "string \<Rightarrow> string" where
  "replace_query [] = []"
| "replace_query (ch # s) =
     (case match_query (ch # s) of Some rest \<Rightarrow> rest | None \<Rightarrow> ch # replace_query s)"

definition set_req_pathname :: "'v ctx handler" where
  "set_req_pathname c =
     Next (c\<lparr>req := (req c)\<lparr>pathname := replace_query (url (req c))\<rparr>\<rparr>) Return"

section \<open>get_asset_handler\<close>

text \<open>
  \<^verbatim>\<open>
  function get_asset_handler(opts) {
    return (req, res, next) => {
      if (!opts.filter(req.pathname)) return next();
      res.setHeader('Content-Type', opts.type);
      res.setHeader('Cache-Control', opts.cache);
      res.end(opts.fn(req.pathname));
    };
  }
  \<close>
  \<^verbatim>\<open>opts.fn\<close> may return \<^verbatim>\<open>undefined\<close> (a pathname that is no key of \<^verbatim>\<open>chunks\<close>).
\<close>

record opts =
  opt_filter :: "string \<Rightarrow> bool"
  opt_type :: string
  opt_cache :: string
  opt_fn :: "string \<Rightarrow> string option"

definition get_asset_handler :: "opts \<Rightarrow> 'v ctx handler" where
  "get_asset_handler os c =
     (if \<not> opt_filter os (pathname (req c)) then Next c Return
      else Return (c\<lparr>res :=
             res_end (opt_fn os (pathname (req c)))
               (setHeader ''Cache-Control'' (opt_cache os)
                 (setHeader ''Content-Type'' (opt_type os) (res c)))\<rparr>))"

section \<open>Values thrown and the modules of the server bundle\<close>

text \<open>
  JavaScript throws any value. The dispatcher's \<^verbatim>\<open>catch\<close> reads four properties of
  what it caught and, failing those, the value itself. \<open>Falsy\<close> is a caught value
  that \<^verbatim>\<open>err && ...\<close> does not look into (\<^verbatim>\<open>null\<close>, \<^verbatim>\<open>undefined\<close>, an empty string);
  of any other value the model keeps the properties \<^verbatim>\<open>name\<close>, \<^verbatim>\<open>details\<close>,
  \<^verbatim>\<open>message\<close> and \<^verbatim>\<open>stack\<close> (\<open>None\<close>: the property is \<^verbatim>\<open>undefined\<close>) and the text
  the value converts to. An \<^verbatim>\<open>Error\<close> object has a stack; a thrown string, or a plain
  object, has none.
\<close>

datatype thrown =
    Falsy
  | Thrown (name: "string option") (details: "string option") (message: "string option")
      (as_text: string) (stack: "string option")

datatype 'a promise = Fulfilled 'a | Rejected thrown

text \<open>
  What \<^verbatim>\<open>mod.preload(req)\<close> does: it returns a value or a promise that is fulfilled
  (\<open>Resolves\<close>), returns a promise that is rejected (\<open>Rejects\<close>), or throws before it
  returns (\<open>Throws\<close>).
\<close>

datatype 'a settled = Resolves 'a | Rejects thrown | Throws thrown

record css =
  code :: "string option"

record rendered =
  html :: string
  head :: string
  css :: "css option"

text \<open>
  A module of the server bundle: a page module has \<^verbatim>\<open>render\<close> and may have
  \<^verbatim>\<open>preload\<close>; the exports of an endpoint module are looked up by name. An export
  called with \<^verbatim>\<open>(req, res, next)\<close> throws, or does what a handler does. A page's data
  is an object: a map from property names to values.
\<close>

record 'v module =
  preload :: "('v request \<Rightarrow> (string \<rightharpoonup> 'v) settled) option"
  render :: "(string \<rightharpoonup> 'v) \<Rightarrow> thrown + rendered"
  exports :: "string \<rightharpoonup> ('v ctx \<Rightarrow> thrown + 'v ctx act)"

record 'v route =
  route_id :: string
  route_type :: string
  test :: "string \<Rightarrow> bool"
  exec :: "string \<Rightarrow> 'v"

record client_cache =
  index :: string
  service_worker :: string
  chunks :: "string \<rightharpoonup> string"
  main_file :: string
  routes :: "string \<rightharpoonup> string"

record server_cache =
  entry :: string

record asset_cache =
  client :: client_cache
  server :: server_cache

section \<open>Templates\<close>

text \<open>
  \<^verbatim>\<open>templates.render(status, props)\<close> is a function of the status and the properties
  it is given, whose text the model leaves open. A property is a string, a number, or
  the falsy value the \<^verbatim>\<open>catch\<close> passes through as a stack.
\<close>

datatype pval = PStr string | PNum nat | PFalsy

text \<open>The four slots of a page: the keys of the object passed to \<^verbatim>\<open>templates.stream\<close>.\<close>

datatype slot = Scripts | Html | Head | Styles

text \<open>
  Modelled from the spec: the document template of \<^verbatim>\<open>lib/templates.js\<close>, which is not
  among the sources. The spec (2, 4.4): a fixed document template with named slots; the
  skeleton is what is outside the slots. Here it is a list of literal pieces and holes.
\<close>

datatype segment = Lit string | Hole slot

text \<open>
  Modelled from the spec: \<^verbatim>\<open>templates.stream\<close> of \<^verbatim>\<open>lib/templates.js\<close>, which is not
  among the sources. The spec (4.4, streaming render): the document template is
  written to the response incrementally; the skeleton outside the slots is written
  as soon as known; each slot is flushed in the fixed textual order of the template,
  slot N only after slot N-1, which requires buffering an early-finishing slot until
  its predecessor is ready; a failure of the shared computation fails all slots.

  \<open>flush\<close> writes what can be written, given the slots that have settled: literals,
  and holes whose slot is fulfilled. It waits at a hole whose slot has not settled,
  fails at a hole whose slot is rejected, and ends the response when the template is
  exhausted. It returns what is left of the template, the response and the failure.
\<close>

fun flush ::
  "(slot \<rightharpoonup> string promise) \<Rightarrow> segment list \<Rightarrow> response \<Rightarrow> segment list \<times> response \<times> thrown option"
where
  "flush rdy [] r = ([], res_end None r, None)"
| "flush rdy (Lit s # segs) r = flush rdy segs (res_write s r)"
| "flush rdy (Hole k # segs) r =
     (case rdy k of
        None \<Rightarrow> (Hole k # segs, r, None)
      | Some (Fulfilled v) \<Rightarrow> flush rdy segs (res_write v r)
      | Some (Rejected e) \<Rightarrow> (Hole k # segs, r, Some e))"

text \<open>
  Modelled from the spec: the state of \<^verbatim>\<open>templates.stream\<close> (the buffer of spec 4.4 and
  5): the slots that have settled, the part of the template not yet written, the
  response, and the failure, if any.
\<close>

record assembler =
  ready :: "slot \<rightharpoonup> string promise"
  pending :: "segment list"
  out :: response
  failure :: "thrown option"

text \<open>Modelled from the spec: the assembler after a flush (\<^verbatim>\<open>templates.stream\<close>).\<close>

definition flushed :: "(slot \<rightharpoonup> string promise) \<Rightarrow> segment list \<Rightarrow> response \<Rightarrow> assembler" where
  "flushed rdy segs r =
     (case flush rdy segs r of (p, r', f) \<Rightarrow> \<lparr>ready = rdy, pending = p, out = r', failure = f\<rparr>)"

text \<open>
  Modelled from the spec: the completion of one slot in \<^verbatim>\<open>templates.stream\<close>. The slot
  is kept, and what can now be written is; after a failure nothing more is written.
\<close>

definition settle :: "(slot \<Rightarrow> string promise) \<Rightarrow> assembler \<Rightarrow> slot \<Rightarrow> assembler" where
  "settle slots a k =
     (case failure a of
        Some e \<Rightarrow> a
      | None \<Rightarrow> flushed ((ready a)(k \<mapsto> slots k)) (pending a) (out a))"

text \<open>
  Modelled from the spec: \<^verbatim>\<open>templates.stream(res, status, slots)\<close> for the template of
  the status, run to the end of a schedule: the order in which the slots complete. What
  precedes the first hole is written before any slot has completed.
\<close>

definition templates_stream ::
  "segment list \<Rightarrow> (slot \<Rightarrow> string promise) \<Rightarrow> slot list \<Rightarrow> response \<Rightarrow> assembler" where
  "templates_stream tpl slots schedule r = foldl (settle slots) (flushed Map.empty tpl r) schedule"

text \<open>
  The text a template comes to when every slot has its value, piece by piece, and the
  slots of a template in the order of their holes.
\<close>

definition fill :: "(slot \<Rightarrow> string) \<Rightarrow> segment \<Rightarrow> string" where
  "fill vals seg = (case seg of Lit s \<Rightarrow> s | Hole k \<Rightarrow> vals k)"

fun holes :: "segment list \<Rightarrow> slot list" where
  "holes [] = []"
| "holes (Lit s # segs) = holes segs"
| "holes (Hole k # segs) = k # holes segs"

text \<open>
  What holds of the assembler after the slots of \<open>done\<close> have completed, when every
  slot is fulfilled with its value of \<open>vals\<close>: nothing has failed, what is written
  and what is pending make up the whole text, the response has ended exactly when
  nothing is pending, and what is pending starts with a hole whose slot has not
  completed.
\<close>

definition stream_inv ::
  "(slot \<Rightarrow> string) \<Rightarrow> response \<Rightarrow> segment list \<Rightarrow> slot list \<Rightarrow> assembler \<Rightarrow> bool" where
  "stream_inv vals r tpl done a \<longleftrightarrow>
     failure a = None \<and>
     (\<forall>k p. ready a k = Some p \<longrightarrow> p = Fulfilled (vals k)) \<and>
     (\<forall>k \<in> set done. ready a k \<noteq> None) \<and>
     written (out a) @ map (fill vals) (pending a) = written r @ map (fill vals) tpl \<and>
     (ended (out a) \<longleftrightarrow> pending a = []) \<and>
     (pending a = [] \<or> (\<exists>k rest. pending a = Hole k # rest \<and> ready a k = None)) \<and>
     statusCode (out a) = statusCode r \<and> headers (out a) = headers r"

text \<open>
  What the code needs from outside: the route table of \<^verbatim>\<open>route_manager\<close>,
  \<^verbatim>\<open>require\<close> (the bundle at \<^verbatim>\<open>server.entry\<close>, then the module of a route id),
  \<^verbatim>\<open>templates.render\<close>, the template that \<^verbatim>\<open>templates.stream\<close> writes for a status,
  \<^verbatim>\<open>escape-html\<close> and \<^verbatim>\<open>serialize-javascript\<close> (which returns the text or throws).
  The bundle is built from the routes of the route table: it has a module for every
  route id.
\<close>

record 'v env =
  route_manager_routes :: "'v route list"
  require :: "string \<Rightarrow> string \<Rightarrow> 'v module"
  templates_render :: "nat \<Rightarrow> (string \<times> pval) list \<Rightarrow> string"
  templates_template :: "nat \<Rightarrow> segment list"
  escape_html :: "string \<Rightarrow> string"
  serialize :: "(string \<rightharpoonup> 'v) \<Rightarrow> thrown + string"

section \<open>get_route_handler\<close>

text \<open>
  \<^verbatim>\<open>
  function try_serialize(data) {
    try { return serialize(data); } catch (err) { return null; }
  }
  \<close>
\<close>

definition try_serialize :: "('d \<Rightarrow> thrown + string) \<Rightarrow> 'd \<Rightarrow> string option" where
  "try_serialize ser data = (case ser data of Inl err \<Rightarrow> None | Inr s \<Rightarrow> Some s)"

text \<open>The strings of \<^verbatim>\<open>handle_route\<close>, as its template literals build them.\<close>

definition main_script :: "client_cache \<Rightarrow> string" where
  "main_script cl = ''<script src='' @ [CHR 0x27] @ main_file cl @ [CHR 0x27] @ ''></script>''"

definition scripts_slot :: "client_cache \<Rightarrow> string option \<Rightarrow> string" where
  "scripts_slot cl serialized =
     (case serialized of
        None \<Rightarrow> main_script cl
      | Some s \<Rightarrow>
          if s \<noteq> [] then ''<script>__SAPPER__ = { preloaded: '' @ s @ '' };</script>'' @ main_script cl
          else main_script cl)"

definition head_slot :: "string \<Rightarrow> string" where
  "head_slot h =
     ''<noscript id='sapper-head-start'></noscript>'' @ h @
     ''<noscript id='sapper-head-end'></noscript>''"

definition styles_slot :: "css option \<Rightarrow> string" where
  "styles_slot cs =
     (case cs of
        None \<Rightarrow> []
      | Some c \<Rightarrow>
          (case code c of
             None \<Rightarrow> []
           | Some s \<Rightarrow> if s \<noteq> [] then ''<style>'' @ s @ ''</style>'' else []))"

definition link_header :: "client_cache \<Rightarrow> string \<Rightarrow> string" where
  "link_header cl rid =
     ''<'' @ main_file cl @ ''>;rel='' @ [CHR 0x22] @ ''preload'' @ [CHR 0x22] @ '';as='' @
     [CHR 0x22] @ ''script'' @ [CHR 0x22] @ '', <'' @
     (case routes cl rid of Some f \<Rightarrow> f | None \<Rightarrow> ''undefined'') @
     ''>;rel='' @ [CHR 0x22] @ ''preload'' @ [CHR 0x22] @ '';as='' @
     [CHR 0x22] @ ''script'' @ [CHR 0x22]"

text \<open>
  \<^verbatim>\<open>req.method.toLowerCase()\<close>, on the letters a method name is made of, and the
  name of the export: \<^verbatim>\<open>method === 'delete' ? 'del' : method\<close>.
\<close>

definition to_lower_char :: "char \<Rightarrow> char" where
  "to_lower_char ch =
     (case map_of (zip ''ABCDEFGHIJKLMNOPQRSTUVWXYZ'' ''abcdefghijklmnopqrstuvwxyz'') ch of
        Some l \<Rightarrow> l
      | None \<Rightarrow> ch)"

definition toLowerCase :: "string \<Rightarrow> string" where
  "toLowerCase s = map to_lower_char s"

definition method_export :: "string \<Rightarrow> string" where
  "method_export m = (if toLowerCase m = ''delete'' then ''del'' else toLowerCase m)"

text \<open>
  The shared promise of a page with \<^verbatim>\<open>preload\<close>:
  \<^verbatim>\<open>
  Promise.resolve(mod.preload(req)).then(preloaded => {
    const serialized = try_serialize(preloaded);
    Object.assign(data, preloaded);
    return { rendered: mod.render(data), serialized };
  })
  \<close>
  and the four slots, each a \<^verbatim>\<open>then\<close> of it. \<open>promise_resolve\<close> is
  \<^verbatim>\<open>Promise.resolve(mod.preload(req))\<close>: when \<^verbatim>\<open>preload\<close> throws there is no promise,
  the exception leaves \<open>handle_route\<close>.
\<close>

definition promise_resolve :: "'a settled \<Rightarrow> thrown + 'a promise" where
  "promise_resolve x =
     (case x of Throws e \<Rightarrow> Inl e | Resolves v \<Rightarrow> Inr (Fulfilled v) | Rejects e \<Rightarrow> Inr (Rejected e))"

definition preload_then ::
  "'v env \<Rightarrow> 'v module \<Rightarrow> (string \<rightharpoonup> 'v) \<Rightarrow> (string \<rightharpoonup> 'v) promise
     \<Rightarrow> (rendered \<times> string option) promise" where
  "preload_then env m data p =
     (case p of
        Rejected e \<Rightarrow> Rejected e
      | Fulfilled preloaded \<Rightarrow>
          (let serialized = try_serialize (serialize env) preloaded
           in case render m (data ++ preloaded) of
                Inl e \<Rightarrow> Rejected e
              | Inr r \<Rightarrow> Fulfilled (r, serialized)))"

definition slot_text :: "client_cache \<Rightarrow> rendered \<Rightarrow> string option \<Rightarrow> slot \<Rightarrow> string" where
  "slot_text cl r serialized k =
     (case k of
        Scripts \<Rightarrow> scripts_slot cl serialized
      | Html \<Rightarrow> html r
      | Head \<Rightarrow> head_slot (head r)
      | Styles \<Rightarrow> styles_slot (css r))"

definition page_slots :: "client_cache \<Rightarrow> (rendered \<times> string option) promise \<Rightarrow> slot \<Rightarrow> string promise" where
  "page_slots cl p k =
     (case p of
        Rejected e \<Rightarrow> Rejected e
      | Fulfilled (r, serialized) \<Rightarrow> Fulfilled (slot_text cl r serialized k))"

text \<open>
  The four slots are \<^verbatim>\<open>then\<close>s of one promise, registered in the order scripts, html,
  head, styles: they settle in that order.
\<close>

definition registration_order :: "slot list" where
  "registration_order = [Scripts, Html, Head, Styles]"

text \<open>
  \<open>handle_route\<close>: \<open>Done a\<close> when the route was handled by doing \<open>a\<close>, \<open>Raised e w\<close>
  when \<open>e\<close> was thrown, or a promise the function returned was rejected with \<open>e\<close>,
  in the state \<open>w\<close>.
\<close>

datatype 'w routed = Done "'w act" | Raised thrown 'w

definition handle_route :: "'v env \<Rightarrow> 'v route \<Rightarrow> 'v ctx \<Rightarrow> asset_cache \<Rightarrow> 'v ctx routed" where
  "handle_route env route c cache =
     (let c1 = c\<lparr>req := (req c)\<lparr>params := exec route (pathname (req c))\<rparr>\<rparr>;
          m = require env (entry (server cache)) (route_id route)
      in if route_type route = ''page'' then
           (let c2 = c1\<lparr>res := setHeader ''Link'' (link_header (client cache) (route_id route)) (res c1)\<rparr>;
                data = [''params'' \<mapsto> params (req c2), ''query'' \<mapsto> query (req c2)]
            in case preload m of
                 Some pre \<Rightarrow>
                   (case promise_resolve (pre (req c2)) of
                      Inl e \<Rightarrow> Raised e c2
                    | Inr p \<Rightarrow>
                        (let promise = preload_then env m data p;
                             a = templates_stream (templates_template env 200)
                                   (page_slots (client cache) promise) registration_order (res c2)
                         in case failure a of
                              Some e \<Rightarrow> Raised e (c2\<lparr>res := out a\<rparr>)
                            | None \<Rightarrow> Done (Return (c2\<lparr>res := out a\<rparr>))))
               | None \<Rightarrow>
                   (case render m data of
                      Inl e \<Rightarrow> Raised e c2
                    | Inr r \<Rightarrow>
                        Done (Return (c2\<lparr>res := res_end (Some (templates_render env 200
                          [(''scripts'', PStr (main_script (client cache))),
                           (''html'', PStr (html r)),
                           (''head'', PStr (head_slot (head r))),
                           (''styles'', PStr (styles_slot (css r)))])) (res c2)\<rparr>))))
         else
           (case exports m (method_export (http_method (req c1))) of
              Some handler \<Rightarrow> (case handler c1 of Inl e \<Rightarrow> Raised e c1 | Inr a \<Rightarrow> Done a)
            | None \<Rightarrow> Done (Next c1 Return)))"

text \<open>
  For the statements about pages: the request and response as \<open>handle_route\<close> has them
  when it calls \<^verbatim>\<open>preload\<close> or \<^verbatim>\<open>render\<close> (\<^verbatim>\<open>params\<close> assigned, the Link header set),
  the data it starts from, and the response as \<open>find_route\<close> hands it on (the
  Content-Type set).
\<close>

definition page_ctx :: "'v route \<Rightarrow> 'v ctx \<Rightarrow> asset_cache \<Rightarrow> 'v ctx" where
  "page_ctx route c cache =
     c\<lparr>req := (req c)\<lparr>params := exec route (pathname (req c))\<rparr>,
       res := setHeader ''Link'' (link_header (client cache) (route_id route)) (res c)\<rparr>"

definition page_data :: "'v route \<Rightarrow> 'v ctx \<Rightarrow> (string \<rightharpoonup> 'v)" where
  "page_data route c = [''params'' \<mapsto> exec route (pathname (req c)), ''query'' \<mapsto> query (req c)]"

definition as_html :: "'v ctx \<Rightarrow> 'v ctx" where
  "as_html c = c\<lparr>res := setHeader ''Content-Type'' ''text/html'' (res c)\<rparr>"

text \<open>
  The loop of \<^verbatim>\<open>find_route\<close>:
  \<^verbatim>\<open>
  for (const route of route_manager.routes) {
    if (route.test(url)) return handle_route(route, req, res, next, fn());
  }
  next();
  \<close>
\<close>

fun scan_routes ::
  "'v env \<Rightarrow> (unit \<Rightarrow> asset_cache) \<Rightarrow> 'v route list \<Rightarrow> string \<Rightarrow> 'v ctx \<Rightarrow> 'v ctx routed" where
  "scan_routes env fn [] u c = Done (Next c Return)"
| "scan_routes env fn (route # rest) u c =
     (if test route u then handle_route env route c (fn ()) else scan_routes env fn rest u c)"

text \<open>
  The \<^verbatim>\<open>catch\<close> of \<^verbatim>\<open>find_route\<close>:
  \<^verbatim>\<open>
  res.statusCode = 500;
  res.end(templates.render(500, {
    title: (err && err.name) || 'Internal server error',
    url,
    error: escape_html(err && (err.details || err.message || err) || 'Unknown error'),
    stack: err && err.stack.split('\n').slice(1).join('\n')
  }));
  \<close>
  \<open>truthy\<close> is the truth of a property that is a string or undefined.
  \<open>error_stack\<close> is \<open>None\<close> when \<^verbatim>\<open>err.stack.split\<close> throws: \<^verbatim>\<open>err.stack\<close> is
  undefined.
\<close>

definition truthy :: "string option \<Rightarrow> bool" where
  "truthy v = (case v of None \<Rightarrow> False | Some s \<Rightarrow> s \<noteq> [])"

definition error_title :: "thrown \<Rightarrow> string" where
  "error_title err =
     (case err of
        Falsy \<Rightarrow> ''Internal server error''
      | Thrown n d m t s \<Rightarrow> if truthy n then the n else ''Internal server error'')"

definition error_detail :: "thrown \<Rightarrow> string" where
  "error_detail err =
     (case err of
        Falsy \<Rightarrow> ''Unknown error''
      | Thrown n d m t s \<Rightarrow> if truthy d then the d else if truthy m then the m else t)"

fun split_lf :: "string \<Rightarrow> string list" where
  "split_lf [] = [[]]"
| "split_lf (ch # s) =
     (if ch = CHR 0x0A then [] # split_lf s
      else (case split_lf s of [] \<Rightarrow> [[ch]] | l # ls \<Rightarrow> (ch # l) # ls))"

fun join_lf :: "string list \<Rightarrow> string" where
  "join_lf [] = []"
| "join_lf [l] = l"
| "join_lf (l # ls) = l @ CHR 0x0A # join_lf ls"

definition error_stack :: "thrown \<Rightarrow> pval option" where
  "error_stack err =
     (case err of
        Falsy \<Rightarrow> Some PFalsy
      | Thrown n d m t s \<Rightarrow>
          (case s of
             None \<Rightarrow> None
           | Some st \<Rightarrow> Some (PStr (join_lf (drop 1 (split_lf st))))))"

text \<open>
  What \<^verbatim>\<open>find_route\<close> comes to: the route's handling (or \<^verbatim>\<open>next()\<close>), the error
  page, or a \<^verbatim>\<open>catch\<close> that threw itself, after it had set the status and before it
  could end the response.
\<close>

datatype 'w outcome = Handled "'w act" | Rendered500 'w | CatchThrew 'w

definition catch_error :: "'v env \<Rightarrow> string \<Rightarrow> thrown \<Rightarrow> 'v ctx \<Rightarrow> 'v ctx outcome" where
  "catch_error env u err w =
     (let w1 = w\<lparr>res := (res w)\<lparr>statusCode := 500\<rparr>\<rparr>
      in case error_stack err of
           None \<Rightarrow> CatchThrew w1
         | Some st \<Rightarrow>
             Rendered500 (w1\<lparr>res := res_end (Some (templates_render env 500
               [(''title'', PStr (error_title err)),
                (''url'', PStr u),
                (''error'', PStr (escape_html env (error_detail err))),
                (''stack'', st)])) (res w1)\<rparr>))"

definition find_route_outcome :: "'v env \<Rightarrow> (unit \<Rightarrow> asset_cache) \<Rightarrow> 'v ctx \<Rightarrow> 'v ctx outcome" where
  "find_route_outcome env fn c =
     (let u = pathname (req c);
          c0 = c\<lparr>res := setHeader ''Content-Type'' ''text/html'' (res c)\<rparr>
      in case scan_routes env fn (route_manager_routes env) u c0 of
           Done a \<Rightarrow> Handled a
         | Raised err w \<Rightarrow> catch_error env u err w)"

definition find_route :: "'v env \<Rightarrow> (unit \<Rightarrow> asset_cache) \<Rightarrow> 'v ctx handler" where
  "find_route env fn c =
     (case find_route_outcome env fn c of
        Handled a \<Rightarrow> a
      | Rendered500 w \<Rightarrow> Return w
      | CatchThrew w \<Rightarrow> Return w)"

definition get_route_handler :: "'v env \<Rightarrow> (unit \<Rightarrow> asset_cache) \<Rightarrow> 'v ctx handler" where
  "get_route_handler env fn = find_route env fn"

section \<open>get_not_found_handler and connect_prod\<close>

definition handle_not_found :: "'v env \<Rightarrow> (unit \<Rightarrow> asset_cache) \<Rightarrow> 'v ctx handler" where
  "handle_not_found env fn c =
     (let cache = fn ()
      in Return (c\<lparr>res := res_end (Some (templates_render env 404
           [(''title'', PStr ''Not found''),
            (''status'', PNum 404),
            (''method'', PStr (http_method (req c))),
            (''scripts'', PStr (main_script (client cache))),
            (''url'', PStr (url (req c)))])) ((res c)\<lparr>statusCode := 404\<rparr>)\<rparr>))"

definition get_not_found_handler :: "'v env \<Rightarrow> (unit \<Rightarrow> asset_cache) \<Rightarrow> 'v ctx handler" where
  "get_not_found_handler env fn = handle_not_found env fn"

definition startsWith :: "string \<Rightarrow> string \<Rightarrow> bool" where
  "startsWith s p \<longleftrightarrow> take (length p) s = p"

text \<open>
  \<open>connect_prod\<close>, given the asset cache that \<^verbatim>\<open>generate_asset_cache\<close> built: the
  chain of the six handlers.
\<close>

definition prod_handlers :: "'v env \<Rightarrow> asset_cache \<Rightarrow> 'v ctx handler list" where
  "prod_handlers env cache =
     [set_req_pathname,
      get_asset_handler \<lparr>opt_filter = (\<lambda>p. p = ''/index.html''), opt_type = ''text/html'',
        opt_cache = ''max-age=600'', opt_fn = (\<lambda>p. Some (index (client cache)))\<rparr>,
      get_asset_handler \<lparr>opt_filter = (\<lambda>p. p = ''/service-worker.js''),
        opt_type = ''application/javascript'', opt_cache = ''max-age=600'',
        opt_fn = (\<lambda>p. Some (service_worker (client cache)))\<rparr>,
      get_asset_handler \<lparr>opt_filter = (\<lambda>p. startsWith p ''/client/''),
        opt_type = ''application/javascript'', opt_cache = ''max-age=31536000'',
        opt_fn = (\<lambda>p. chunks (client cache) p)\<rparr>,
      get_route_handler env (\<lambda>u. cache),
      get_not_found_handler env (\<lambda>u. cache)]"

definition connect_prod :: "'v env \<Rightarrow> asset_cache \<Rightarrow> 'v ctx \<Rightarrow> ('v ctx \<Rightarrow> 'v ctx) \<Rightarrow> 'v ctx chain" where
  "connect_prod env cache = compose_handlers (prod_handlers env cache)"

section \<open>Inputs for the examples\<close>

text \<open>
  A small site: an asset cache with one chunk, and requests that nobody has answered
  yet (status 200, no header, nothing written).
\<close>

definition fresh_response :: response where
  "fresh_response = \<lparr>statusCode = 200, headers = Map.empty, written = [], ended = False\<rparr>"

definition request_for :: "string \<Rightarrow> string \<Rightarrow> string ctx" where
  "request_for m u =
     \<lparr>req = \<lparr>http_method = m, url = u, pathname = [], params = [], query = []\<rparr>,
      res = fresh_response\<rparr>"

text \<open>The same request after \<open>set_req_pathname\<close>, for a URL without a query.\<close>

definition request_at :: "string \<Rightarrow> string \<Rightarrow> string ctx" where
  "request_at m u =
     \<lparr>req = \<lparr>http_method = m, url = u, pathname = u, params = [], query = []\<rparr>,
      res = fresh_response\<rparr>"

definition demo_cache :: asset_cache where
  "demo_cache =
     \<lparr>client = \<lparr>index = ''<html>index</html>'', service_worker = ''self.skipWaiting()'',
                 chunks = [''/client/app.abcd1234.js'' \<mapsto> ''console.log(1)''],
                 main_file = ''/client/main.js'',
                 routes = [''about'' \<mapsto> ''/client/about.js'']\<rparr>,
      server = \<lparr>entry = ''server.js''\<rparr>\<rparr>"

definition chunk_opts :: opts where
  "chunk_opts =
     \<lparr>opt_filter = (\<lambda>p. startsWith p ''/client/''), opt_type = ''application/javascript'',
      opt_cache = ''max-age=31536000'', opt_fn = (\<lambda>p. chunks (client demo_cache) p)\<rparr>"

definition demo_rendered :: rendered where
  "demo_rendered =
     \<lparr>html = ''<h1>Hello</h1>'', head = ''<title>Blog</title>'', css = Some \<lparr>code = Some ''h1{}''\<rparr>\<rparr>"

text \<open>
  Routes: a page without \<^verbatim>\<open>preload\<close>, a page with \<^verbatim>\<open>preload\<close> that takes every
  path under \<^verbatim>\<open>/blog\<close>, a page for one of those paths, registered after it, a page whose
  \<^verbatim>\<open>render\<close> throws the string \<^verbatim>\<open>'boom'\<close>, and an endpoint that exports \<^verbatim>\<open>get\<close> only.
\<close>

definition about_module :: "string module" where
  "about_module =
     \<lparr>preload = None,
      render = (\<lambda>data. Inr \<lparr>html = ''<p>About</p>'', head = [], css = None\<rparr>),
      exports = Map.empty\<rparr>"

definition blog_module :: "string module" where
  "blog_module =
     \<lparr>preload = Some (\<lambda>rq. Resolves [''title'' \<mapsto> ''Hello'']),
      render = (\<lambda>data. Inr \<lparr>html = ''<h1>'' @ (case data ''title'' of Some t \<Rightarrow> t | None \<Rightarrow> []) @ ''</h1>'',
                            head = ''<title>Blog</title>'',
                            css = Some \<lparr>code = Some ''h1{}''\<rparr>\<rparr>),
      exports = Map.empty\<rparr>"

definition boom :: thrown where
  "boom = Thrown None None None ''boom'' None"

definition broken_module :: "string module" where
  "broken_module = \<lparr>preload = None, render = (\<lambda>data. Inl boom), exports = Map.empty\<rparr>"

definition api_get :: "string ctx \<Rightarrow> thrown + string ctx act" where
  "api_get c = Inr (Return (c\<lparr>res := res_end (Some ''{}'') (res c)\<rparr>))"

definition api_module :: "string module" where
  "api_module =
     \<lparr>preload = None, render = (\<lambda>data. Inl Falsy), exports = [''get'' \<mapsto> api_get]\<rparr>"

text \<open>
  Two more pages: one whose \<^verbatim>\<open>preload\<close> resolves to data with a cycle, and one whose
  \<^verbatim>\<open>render\<close> throws a plain object, \<^verbatim>\<open>{ message: '<b>boom</b>' }\<close>.
\<close>

definition cyclic_module :: "string module" where
  "cyclic_module =
     \<lparr>preload = Some (\<lambda>rq. Resolves [''self'' \<mapsto> ''[Circular]'']),
      render = (\<lambda>data. Inr demo_rendered),
      exports = Map.empty\<rparr>"

definition unsafe_object :: thrown where
  "unsafe_object = Thrown None None (Some ''<b>boom</b>'') ''[object Object]'' None"

definition unsafe_module :: "string module" where
  "unsafe_module = \<lparr>preload = None, render = (\<lambda>data. Inl unsafe_object), exports = Map.empty\<rparr>"

definition demo_routes :: "string route list" where
  "demo_routes =
     [\<lparr>route_id = ''about'', route_type = ''page'', test = (\<lambda>p. p = ''/about''), exec = (\<lambda>p. [])\<rparr>,
      \<lparr>route_id = ''blog'', route_type = ''page'', test = (\<lambda>p. startsWith p ''/blog''),
        exec = (\<lambda>p. drop 5 p)\<rparr>,
      \<lparr>route_id = ''post'', route_type = ''page'', test = (\<lambda>p. p = ''/blog/post''), exec = (\<lambda>p. [])\<rparr>,
      \<lparr>route_id = ''broken'', route_type = ''page'', test = (\<lambda>p. p = ''/broken''), exec = (\<lambda>p. [])\<rparr>,
      \<lparr>route_id = ''api'', route_type = ''route'', test = (\<lambda>p. startsWith p ''/api''),
        exec = (\<lambda>p. [])\<rparr>,
      \<lparr>route_id = ''cyclic'', route_type = ''page'', test = (\<lambda>p. p = ''/cyclic''), exec = (\<lambda>p. [])\<rparr>,
      \<lparr>route_id = ''unsafe'', route_type = ''page'', test = (\<lambda>p. p = ''/unsafe''), exec = (\<lambda>p. [])\<rparr>]"

definition demo_require :: "string \<Rightarrow> string \<Rightarrow> string module" where
  "demo_require e rid =
     (if rid = ''about'' \<or> rid = ''post'' then about_module
      else if rid = ''blog'' then blog_module
      else if rid = ''broken'' then broken_module
      else if rid = ''cyclic'' then cyclic_module
      else if rid = ''unsafe'' then unsafe_module
      else api_module)"

text \<open>
  A rendering of the templates that shows the status and every string it is given; the
  replacements of \<^verbatim>\<open>escape-html\<close>; a serializer that throws on data with a property
  \<^verbatim>\<open>self\<close> (a cycle).
\<close>

definition demo_render :: "nat \<Rightarrow> (string \<times> pval) list \<Rightarrow> string" where
  "demo_render status props =
     (if status = 200 then ''200'' else if status = 404 then ''404'' else ''500'') @
     concat (map (\<lambda>kv. case snd kv of PStr s \<Rightarrow> ''|'' @ s | PNum n \<Rightarrow> ''|#'' | PFalsy \<Rightarrow> ''|'') props)"

definition demo_template :: "nat \<Rightarrow> segment list" where
  "demo_template status =
     [Lit ''<html>'', Hole Scripts, Lit ''<body>'', Hole Html, Lit ''</body><head>'', Hole Head,
      Hole Styles, Lit ''</head></html>'']"

definition demo_escape_char :: "char \<Rightarrow> string" where
  "demo_escape_char ch =
     (if ch = CHR 0x22 then ''&quot;'' else if ch = CHR ''&'' then ''&amp;''
      else if ch = CHR 0x27 then ''&#39;'' else if ch = CHR ''<'' then ''&lt;''
      else if ch = CHR ''>'' then ''&gt;'' else [ch])"

definition demo_escape :: "string \<Rightarrow> string" where
  "demo_escape s = concat (map demo_escape_char s)"

definition demo_serialize :: "(string \<rightharpoonup> string) \<Rightarrow> thrown + string" where
  "demo_serialize data =
     (case data ''self'' of
        Some v \<Rightarrow> Inl (Thrown (Some ''TypeError'') None (Some ''Converting circular structure to JSON'')
                         ''TypeError: Converting circular structure to JSON''
                         (Some ''TypeError: Converting circular structure to JSON''))
      | None \<Rightarrow> Inr ''{title:Hello}'')"

definition demo_env :: "string env" where
  "demo_env =
     \<lparr>route_manager_routes = demo_routes, require = demo_require, templates_render = demo_render,
      templates_template = demo_template, escape_html = demo_escape, serialize = demo_serialize\<rparr>"

text \<open>
  Handlers on a counter: one that calls \<^verbatim>\<open>next\<close> twice, one that returns without
  calling it, one that counts and calls it once.
\<close>

definition proceeds_twice :: "nat handler" where
  "proceeds_twice w = Next w (\<lambda>w'. Next w' Return)"

definition stops :: "nat handler" where
  "stops w = Return w"

definition proceeds_once :: "nat handler" where
  "proceeds_once w = Next (w + 1) Return"

section \<open>Properties\<close>

subsection \<open>set_req_pathname\<close>

lemma replace_query_no_terminator:
  "\<forall>ch \<in> set u. \<not> line_terminator ch \<Longrightarrow>
   replace_query u =
     (if 2 \<le> length (dropWhile (\<lambda>x. x \<noteq> CHR ''?'') u)
      then takeWhile (\<lambda>x. x \<noteq> CHR ''?'') u else u)"
proof (induction u)
  case Nil
  show ?case by simp
next
  case (Cons ch s)
  show ?case
  proof (cases "ch = CHR ''?''")
    case True
    show ?thesis
    proof (cases s)
      case Nil
      with True show ?thesis by simp
    next
      case (Cons d rest)
      have "dropWhile (\<lambda>x. \<not> line_terminator x) rest = []"
        using Cons.prems Cons by (simp add: dropWhile_eq_Nil_conv)
      moreover have "\<not> line_terminator d" using Cons.prems Cons by simp
      ultimately show ?thesis using True Cons by simp
    qed
  next
    case False
    then have "match_query (ch # s) = None" by (cases s) simp_all
    moreover have "replace_query s =
      (if 2 \<le> length (dropWhile (\<lambda>x. x \<noteq> CHR ''?'') s)
       then takeWhile (\<lambda>x. x \<noteq> CHR ''?'') s else s)"
      using Cons.IH Cons.prems by simp
    ultimately show ?thesis using False by simp
  qed
qed

text \<open>
  C10. For every request URL (a request target holds no line feed and no carriage
  return), \<open>set_req_pathname\<close> calls \<^verbatim>\<open>next\<close> once, in a state that differs from the one
  it was given in \<^verbatim>\<open>req.pathname\<close> only, and does nothing after. \<open>dropWhile\<close> gives
  the URL from its first question mark on, \<open>takeWhile\<close> the part before it: when
  at least one character follows the first question mark, the pathname is the part
  before it; when none does (the URL has no question mark, or its only one is its
  last character), the pathname is the whole URL. \<^verbatim>\<open>req.url\<close> is not changed.
\<close>

theorem set_req_pathname_strips_query:
  assumes "\<forall>ch \<in> set (url (req c)). \<not> line_terminator ch"
  shows "set_req_pathname c =
           Next (c\<lparr>req := (req c)\<lparr>pathname :=
             (if 2 \<le> length (dropWhile (\<lambda>x. x \<noteq> CHR ''?'') (url (req c)))
              then takeWhile (\<lambda>x. x \<noteq> CHR ''?'') (url (req c))
              else url (req c))\<rparr>\<rparr>) Return"
  using replace_query_no_terminator[OF assms] by (simp add: set_req_pathname_def)

theorem set_req_pathname_strips_query_witness:
  "set_req_pathname (request_for ''GET'' ''/blog?page=2'') =
     Next ((request_for ''GET'' ''/blog?page=2'')
             \<lparr>req := (req (request_for ''GET'' ''/blog?page=2''))\<lparr>pathname := ''/blog''\<rparr>\<rparr>) Return
   \<and> set_req_pathname (request_for ''GET'' ''/blog?'') =
     Next ((request_for ''GET'' ''/blog?'')
             \<lparr>req := (req (request_for ''GET'' ''/blog?''))\<lparr>pathname := ''/blog?''\<rparr>\<rparr>) Return"
  using set_req_pathname_strips_query[of "request_for ''GET'' ''/blog?page=2''"]
        set_req_pathname_strips_query[of "request_for ''GET'' ''/blog?''"]
  by (simp add: request_for_def line_terminator_def)

subsection \<open>get_asset_handler\<close>

text \<open>
  C9. For every asset handler and every request: when the predicate rejects the
  pathname, the handler calls \<^verbatim>\<open>next\<close> in the state it was given and does nothing
  after; when the predicate accepts it (and the response has not ended), the handler
  returns without calling \<^verbatim>\<open>next\<close>, having set Content-Type and Cache-Control to the
  configured values and ended the response with what the resolver returns for the
  pathname. In the chain of \<open>connect_prod\<close>, a request for
  \<^verbatim>\<open>/client/app.abcd1234.js\<close>, a key of \<^verbatim>\<open>client.chunks\<close>, is answered with
  Content-Type \<^verbatim>\<open>application/javascript\<close>, Cache-Control \<^verbatim>\<open>max-age=31536000\<close> and the
  cached bytes as the whole body; the status is left as it was.
\<close>

theorem get_asset_handler_serves:
  "(\<not> opt_filter os (pathname (req c)) \<longrightarrow> get_asset_handler os c = Next c Return) \<and>
   (opt_filter os (pathname (req c)) \<and> \<not> ended (res c) \<longrightarrow>
      get_asset_handler os c =
        Return (c\<lparr>res := (res c)\<lparr>
          headers := (headers (res c))(''Content-Type'' \<mapsto> opt_type os,
                                       ''Cache-Control'' \<mapsto> opt_cache os),
          written := written (res c) @
                       (case opt_fn os (pathname (req c)) of None \<Rightarrow> [] | Some b \<Rightarrow> [b]),
          ended := True\<rparr>\<rparr>)) \<and>
   (url (req c) = ''/client/app.abcd1234.js'' \<and>
    chunks (client cache) ''/client/app.abcd1234.js'' = Some bytes \<and>
    \<not> ended (res c) \<and> written (res c) = [] \<longrightarrow>
      res (world (connect_prod env cache c nxt)) =
        (res c)\<lparr>headers := (headers (res c))(''Content-Type'' \<mapsto> ''application/javascript'',
                    ''Cache-Control'' \<mapsto> ''max-age=31536000''),
                written := [bytes], ended := True\<rparr>)"
  by (auto simp: get_asset_handler_def setHeader_def res_end_def connect_prod_def
      compose_handlers_def prod_handlers_def go.simps set_req_pathname_def startsWith_def)

theorem get_asset_handler_serves_witness:
  "get_asset_handler chunk_opts (request_at ''GET'' ''/about'') =
     Next (request_at ''GET'' ''/about'') Return
   \<and> get_asset_handler chunk_opts (request_at ''GET'' ''/client/app.abcd1234.js'') =
     Return ((request_at ''GET'' ''/client/app.abcd1234.js'')\<lparr>res :=
       fresh_response\<lparr>headers := [''Content-Type'' \<mapsto> ''application/javascript'',
                                  ''Cache-Control'' \<mapsto> ''max-age=31536000''],
                      written := [''console.log(1)''], ended := True\<rparr>\<rparr>)
   \<and> res (world (connect_prod demo_env demo_cache
             (request_for ''GET'' ''/client/app.abcd1234.js'') (\<lambda>w. w))) =
     fresh_response\<lparr>headers := [''Content-Type'' \<mapsto> ''application/javascript'',
                                ''Cache-Control'' \<mapsto> ''max-age=31536000''],
                    written := [''console.log(1)''], ended := True\<rparr>"
  using get_asset_handler_serves[of chunk_opts "request_at ''GET'' ''/about''" demo_cache
          "''console.log(1)''" demo_env "\<lambda>w. w"]
        get_asset_handler_serves[of chunk_opts "request_at ''GET'' ''/client/app.abcd1234.js''"
          demo_cache "''console.log(1)''" demo_env "\<lambda>w. w"]
        get_asset_handler_serves[of chunk_opts "request_for ''GET'' ''/client/app.abcd1234.js''"
          demo_cache "''console.log(1)''" demo_env "\<lambda>w. w"]
  by (simp add: request_for_def request_at_def chunk_opts_def demo_cache_def fresh_response_def
      startsWith_def)

subsection \<open>find_route\<close>

lemma scan_routes_no_match:
  "\<forall>r \<in> set rs. \<not> test r u \<Longrightarrow> scan_routes env fn rs u c = Done (Next c Return)"
  by (induction rs) simp_all

lemma scan_routes_first_match:
  "\<forall>r \<in> set before. \<not> test r u \<Longrightarrow> test route u \<Longrightarrow>
   scan_routes env fn (before @ route # after) u c = handle_route env route c (fn ())"
  by (induction before) simp_all

lemma find_route_no_match:
  "\<forall>r \<in> set (route_manager_routes env). \<not> test r (pathname (req c)) \<Longrightarrow>
   find_route env fn c = Next (c\<lparr>res := setHeader ''Content-Type'' ''text/html'' (res c)\<rparr>) Return"
  by (simp add: find_route_def find_route_outcome_def scan_routes_no_match)


lemma handle_route_routes_irrelevant:
  "handle_route (env\<lparr>route_manager_routes := rs\<rparr>) route c cache = handle_route env route c cache"
  by (simp add: handle_route_def preload_then_def Let_def
      cong: option.case_cong sum.case_cong settled.case_cong promise.case_cong if_cong)

lemma catch_error_routes_irrelevant:
  "catch_error (env\<lparr>route_manager_routes := rs\<rparr>) u e w = catch_error env u e w"
  by (simp add: catch_error_def Let_def cong: option.case_cong)

lemma not_found_page:
  assumes "replace_query (url (req c)) = p"
    and "p \<noteq> ''/index.html''" and "p \<noteq> ''/service-worker.js''" and "\<not> startsWith p ''/client/''"
    and "\<forall>r \<in> set (route_manager_routes env). \<not> test r p"
    and "\<not> ended (res c)"
  shows "connect_prod env cache c nxt =
     \<lparr>cursor = 5,
      trace = [Start 0, Proceed 0, Start 1, Proceed 1, Start 2, Proceed 2, Start 3, Proceed 3,
               Start 4, Proceed 4, Start 5],
      world = c\<lparr>req := (req c)\<lparr>pathname := p\<rparr>,
                res := (res c)\<lparr>statusCode := 404,
                  headers := (headers (res c))(''Content-Type'' \<mapsto> ''text/html''),
                  written := written (res c) @ [templates_render env 404
                    [(''title'', PStr ''Not found''), (''status'', PNum 404),
                     (''method'', PStr (http_method (req c))),
                     (''scripts'', PStr (main_script (client cache))),
                     (''url'', PStr (url (req c)))]],
                  ended := True\<rparr>\<rparr>\<rparr>"
  using assms
  by (simp add: connect_prod_def compose_handlers_def prod_handlers_def go.simps
      set_req_pathname_def get_asset_handler_def get_route_handler_def find_route_no_match
      get_not_found_handler_def handle_not_found_def setHeader_def res_end_def)

text \<open>
  C1. For every route table and every request. When no route's \<^verbatim>\<open>test\<close> accepts the
  pathname, \<open>find_route\<close> calls \<^verbatim>\<open>next\<close> (once, having set only the Content-Type
  header) and handles no route. When the table is \<open>before @ route # after\<close>, no route
  of \<open>before\<close> accepts the pathname and \<open>route\<close> does, \<open>find_route\<close> dispatches
  \<open>route\<close>: what it comes to is \<open>handle_route\<close> of \<open>route\<close>, on the request and the
  response with its Content-Type set, and the \<^verbatim>\<open>catch\<close> of what that raises; whatever
  \<open>after\<close> holds, no other route is handled, and \<open>find_route\<close> does what it would do
  if \<open>route\<close> were the only route of the table. In the chain of \<open>connect_prod\<close>, a
  request that no asset handler takes and no route accepts goes through \<open>find_route\<close>
  to the Not-Found handler, which ends it with status 404; the outer \<^verbatim>\<open>next\<close> is not
  called.
\<close>

theorem find_route_first_match:
  "((\<forall>r \<in> set (route_manager_routes env). \<not> test r (pathname (req c))) \<longrightarrow>
      find_route_outcome env fn c = Handled (Next (as_html c) Return) \<and>
      find_route env fn c = Next (c\<lparr>res := setHeader ''Content-Type'' ''text/html'' (res c)\<rparr>) Return) \<and>
   (route_manager_routes env = before @ route # after \<and>
    (\<forall>r \<in> set before. \<not> test r (pathname (req c))) \<and> test route (pathname (req c)) \<longrightarrow>
      find_route_outcome env fn c =
        (case handle_route env route (as_html c) (fn ()) of
           Done a \<Rightarrow> Handled a
         | Raised err w \<Rightarrow> catch_error env (pathname (req c)) err w) \<and>
      find_route env fn c =
        (case handle_route env route (as_html c) (fn ()) of
           Done a \<Rightarrow> a
         | Raised err w \<Rightarrow>
             (case catch_error env (pathname (req c)) err w of
                Handled a \<Rightarrow> a | Rendered500 w' \<Rightarrow> Return w' | CatchThrew w' \<Rightarrow> Return w')) \<and>
      scan_routes env fn (route_manager_routes env) (pathname (req c)) c = handle_route env route c (fn ()) \<and>
      find_route env fn c = find_route (env\<lparr>route_manager_routes := [route]\<rparr>) fn c) \<and>
   (replace_query (url (req d)) = p \<and> p \<noteq> ''/index.html'' \<and> p \<noteq> ''/service-worker.js'' \<and>
    \<not> startsWith p ''/client/'' \<and> \<not> ended (res d) \<and>
    (\<forall>r \<in> set (route_manager_routes env). \<not> test r p) \<longrightarrow>
      connect_prod env cache d nxt =
        \<lparr>cursor = 5,
         trace = [Start 0, Proceed 0, Start 1, Proceed 1, Start 2, Proceed 2, Start 3, Proceed 3,
                  Start 4, Proceed 4, Start 5],
         world = d\<lparr>req := (req d)\<lparr>pathname := p\<rparr>,
                   res := (res d)\<lparr>statusCode := 404,
                     headers := (headers (res d))(''Content-Type'' \<mapsto> ''text/html''),
                     written := written (res d) @ [templates_render env 404
                       [(''title'', PStr ''Not found''), (''status'', PNum 404),
                        (''method'', PStr (http_method (req d))),
                        (''scripts'', PStr (main_script (client cache))),
                        (''url'', PStr (url (req d)))]],
                     ended := True\<rparr>\<rparr>\<rparr>)"
proof (intro conjI impI)
  assume "\<forall>r \<in> set (route_manager_routes env). \<not> test r (pathname (req c))"
  then show "find_route_outcome env fn c = Handled (Next (as_html c) Return)"
    by (simp add: find_route_outcome_def scan_routes_no_match as_html_def)
next
  assume "\<forall>r \<in> set (route_manager_routes env). \<not> test r (pathname (req c))"
  then show "find_route env fn c =
      Next (c\<lparr>res := setHeader ''Content-Type'' ''text/html'' (res c)\<rparr>) Return"
    by (rule find_route_no_match)
next
  assume "route_manager_routes env = before @ route # after \<and>
    (\<forall>r \<in> set before. \<not> test r (pathname (req c))) \<and> test route (pathname (req c))"
  then show "find_route_outcome env fn c =
        (case handle_route env route (as_html c) (fn ()) of
           Done a \<Rightarrow> Handled a
         | Raised err w \<Rightarrow> catch_error env (pathname (req c)) err w)"
    by (simp add: find_route_outcome_def scan_routes_first_match as_html_def)
next
  assume "route_manager_routes env = before @ route # after \<and>
    (\<forall>r \<in> set before. \<not> test r (pathname (req c))) \<and> test route (pathname (req c))"
  then have "find_route_outcome env fn c =
        (case handle_route env route (as_html c) (fn ()) of
           Done a \<Rightarrow> Handled a
         | Raised err w \<Rightarrow> catch_error env (pathname (req c)) err w)"
    by (simp add: find_route_outcome_def scan_routes_first_match as_html_def)
  then show "find_route env fn c =
        (case handle_route env route (as_html c) (fn ()) of
           Done a \<Rightarrow> a
         | Raised err w \<Rightarrow>
             (case catch_error env (pathname (req c)) err w of
                Handled a \<Rightarrow> a | Rendered500 w' \<Rightarrow> Return w' | CatchThrew w' \<Rightarrow> Return w'))"
    by (simp add: find_route_def split: routed.splits)
next
  assume "route_manager_routes env = before @ route # after \<and>
    (\<forall>r \<in> set before. \<not> test r (pathname (req c))) \<and> test route (pathname (req c))"
  then show "scan_routes env fn (route_manager_routes env) (pathname (req c)) c =
      handle_route env route c (fn ())"
    by (simp add: scan_routes_first_match)
next
  assume "route_manager_routes env = before @ route # after \<and>
    (\<forall>r \<in> set before. \<not> test r (pathname (req c))) \<and> test route (pathname (req c))"
  then show "find_route env fn c = find_route (env\<lparr>route_manager_routes := [route]\<rparr>) fn c"
    by (simp add: find_route_def find_route_outcome_def scan_routes_first_match
        handle_route_routes_irrelevant catch_error_routes_irrelevant cong: routed.case_cong)
next
  assume "replace_query (url (req d)) = p \<and> p \<noteq> ''/index.html'' \<and> p \<noteq> ''/service-worker.js'' \<and>
    \<not> startsWith p ''/client/'' \<and> \<not> ended (res d) \<and>
    (\<forall>r \<in> set (route_manager_routes env). \<not> test r p)"
  then show "connect_prod env cache d nxt =
        \<lparr>cursor = 5,
         trace = [Start 0, Proceed 0, Start 1, Proceed 1, Start 2, Proceed 2, Start 3, Proceed 3,
                  Start 4, Proceed 4, Start 5],
         world = d\<lparr>req := (req d)\<lparr>pathname := p\<rparr>,
                   res := (res d)\<lparr>statusCode := 404,
                     headers := (headers (res d))(''Content-Type'' \<mapsto> ''text/html''),
                     written := written (res d) @ [templates_render env 404
                       [(''title'', PStr ''Not found''), (''status'', PNum 404),
                        (''method'', PStr (http_method (req d))),
                        (''scripts'', PStr (main_script (client cache))),
                        (''url'', PStr (url (req d)))]],
                     ended := True\<rparr>\<rparr>\<rparr>"
    by (simp add: not_found_page)
qed

theorem find_route_first_match_witness:
  "find_route demo_env (\<lambda>u. demo_cache) (request_at ''GET'' ''/nothing'') =
     Next ((request_at ''GET'' ''/nothing'')\<lparr>res :=
       setHeader ''Content-Type'' ''text/html'' fresh_response\<rparr>) Return
   \<and> test (demo_routes ! 1) ''/blog/post'' \<and> test (demo_routes ! 2) ''/blog/post''
   \<and> find_route_outcome demo_env (\<lambda>u. demo_cache) (request_at ''GET'' ''/blog/post'') =
     (case handle_route demo_env (demo_routes ! 1) (as_html (request_at ''GET'' ''/blog/post'')) demo_cache of
        Done a \<Rightarrow> Handled a
      | Raised err w \<Rightarrow> catch_error demo_env ''/blog/post'' err w)
   \<and> scan_routes demo_env (\<lambda>u. demo_cache) demo_routes ''/blog/post'' (request_at ''GET'' ''/blog/post'') =
     handle_route demo_env (demo_routes ! 1) (request_at ''GET'' ''/blog/post'') demo_cache
   \<and> find_route demo_env (\<lambda>u. demo_cache) (request_at ''GET'' ''/about'') =
     Return \<lparr>req = \<lparr>http_method = ''GET'', url = ''/about'', pathname = ''/about'',
                     params = [], query = []\<rparr>,
             res = \<lparr>statusCode = 200,
                    headers = [''Content-Type'' \<mapsto> ''text/html'',
                               ''Link'' \<mapsto> link_header (client demo_cache) ''about''],
                    written = [demo_render 200
                      [(''scripts'', PStr (main_script (client demo_cache))),
                       (''html'', PStr ''<p>About</p>''),
                       (''head'', PStr (head_slot [])),
                       (''styles'', PStr [])]],
                    ended = True\<rparr>\<rparr>
   \<and> statusCode (res (world (connect_prod demo_env demo_cache
         (request_for ''GET'' ''/nothing?x=1'') (\<lambda>w. w)))) = 404"
proof -
  have about: "handle_route demo_env (demo_routes ! 0) (as_html (request_at ''GET'' ''/about'')) demo_cache =
     Done (Return \<lparr>req = \<lparr>http_method = ''GET'', url = ''/about'', pathname = ''/about'',
                     params = [], query = []\<rparr>,
             res = \<lparr>statusCode = 200,
                    headers = [''Content-Type'' \<mapsto> ''text/html'',
                               ''Link'' \<mapsto> link_header (client demo_cache) ''about''],
                    written = [demo_render 200
                      [(''scripts'', PStr (main_script (client demo_cache))),
                       (''html'', PStr ''<p>About</p>''),
                       (''head'', PStr (head_slot [])),
                       (''styles'', PStr [])]],
                    ended = True\<rparr>\<rparr>)"
    by (simp add: demo_env_def demo_routes_def request_at_def fresh_response_def as_html_def
        handle_route_def demo_require_def about_module_def setHeader_def res_end_def
        styles_slot_def Let_def)
  have unmatched: "find_route demo_env (\<lambda>u. demo_cache) (request_at ''GET'' ''/nothing'') =
       Next ((request_at ''GET'' ''/nothing'')\<lparr>res :=
         setHeader ''Content-Type'' ''text/html'' fresh_response\<rparr>) Return
     \<and> statusCode (res (world (connect_prod demo_env demo_cache
           (request_for ''GET'' ''/nothing?x=1'') (\<lambda>w. w)))) = 404"
    using find_route_first_match[where env = demo_env and c = "request_at ''GET'' ''/nothing''"
          and fn = "\<lambda>u. demo_cache" and before = "take 1 demo_routes"
          and route = "demo_routes ! 1" and after = "drop 2 demo_routes"
          and d = "request_for ''GET'' ''/nothing?x=1''"
          and p = "''/nothing''" and cache = demo_cache and nxt = "\<lambda>w. w"]
    by (simp add: demo_env_def demo_routes_def request_at_def request_for_def startsWith_def
        line_terminator_def fresh_response_def)
  have p: "pathname (req (request_at ''GET'' ''/blog/post'')) = ''/blog/post''"
    by (simp add: request_at_def)
  have r: "route_manager_routes demo_env = demo_routes"
    by (simp add: demo_env_def)
  have tests: "test (demo_routes ! 1) ''/blog/post'' \<and> test (demo_routes ! 2) ''/blog/post''"
    by (simp add: demo_routes_def startsWith_def)
  have "route_manager_routes demo_env = take 1 demo_routes @ demo_routes ! 1 # drop 2 demo_routes \<and>
      (\<forall>r \<in> set (take 1 demo_routes). \<not> test r (pathname (req (request_at ''GET'' ''/blog/post'')))) \<and>
      test (demo_routes ! 1) (pathname (req (request_at ''GET'' ''/blog/post'')))"
    by (simp add: demo_env_def demo_routes_def request_at_def startsWith_def)
  then have "find_route_outcome demo_env (\<lambda>u. demo_cache) (request_at ''GET'' ''/blog/post'') =
       (case handle_route demo_env (demo_routes ! 1) (as_html (request_at ''GET'' ''/blog/post'')) demo_cache of
          Done a \<Rightarrow> Handled a
        | Raised err w \<Rightarrow> catch_error demo_env (pathname (req (request_at ''GET'' ''/blog/post''))) err w)
     \<and> scan_routes demo_env (\<lambda>u. demo_cache) (route_manager_routes demo_env)
         (pathname (req (request_at ''GET'' ''/blog/post''))) (request_at ''GET'' ''/blog/post'') =
       handle_route demo_env (demo_routes ! 1) (request_at ''GET'' ''/blog/post'') demo_cache"
    using find_route_first_match[where env = demo_env and c = "request_at ''GET'' ''/blog/post''"
          and fn = "\<lambda>u. demo_cache" and before = "take 1 demo_routes"
          and route = "demo_routes ! 1" and after = "drop 2 demo_routes"
          and d = "request_for ''GET'' ''/nothing?x=1''"
          and p = "''/nothing''" and cache = demo_cache and nxt = "\<lambda>w. w"]
    by blast
  then have post: "find_route_outcome demo_env (\<lambda>u. demo_cache) (request_at ''GET'' ''/blog/post'') =
       (case handle_route demo_env (demo_routes ! 1) (as_html (request_at ''GET'' ''/blog/post'')) demo_cache of
          Done a \<Rightarrow> Handled a
        | Raised err w \<Rightarrow> catch_error demo_env ''/blog/post'' err w)
     \<and> scan_routes demo_env (\<lambda>u. demo_cache) demo_routes ''/blog/post'' (request_at ''GET'' ''/blog/post'') =
       handle_route demo_env (demo_routes ! 1) (request_at ''GET'' ''/blog/post'') demo_cache"
    unfolding p r .
  have "route_manager_routes demo_env = [] @ demo_routes ! 0 # drop 1 demo_routes \<and>
      (\<forall>r \<in> set []. \<not> test r (pathname (req (request_at ''GET'' ''/about'')))) \<and>
      test (demo_routes ! 0) (pathname (req (request_at ''GET'' ''/about'')))"
    by (simp add: demo_env_def demo_routes_def request_at_def)
  then have "find_route demo_env (\<lambda>u. demo_cache) (request_at ''GET'' ''/about'') =
        (case handle_route demo_env (demo_routes ! 0) (as_html (request_at ''GET'' ''/about'')) demo_cache of
           Done a \<Rightarrow> a
         | Raised err w \<Rightarrow>
             (case catch_error demo_env (pathname (req (request_at ''GET'' ''/about''))) err w of
                Handled a \<Rightarrow> a | Rendered500 w' \<Rightarrow> Return w' | CatchThrew w' \<Rightarrow> Return w'))"
    using find_route_first_match[where env = demo_env and c = "request_at ''GET'' ''/about''"
          and fn = "\<lambda>u. demo_cache" and before = "[]"
          and route = "demo_routes ! 0" and after = "drop 1 demo_routes"
          and d = "request_for ''GET'' ''/nothing?x=1''"
          and p = "''/nothing''" and cache = demo_cache and nxt = "\<lambda>w. w"]
    by blast
  then have served: "find_route demo_env (\<lambda>u. demo_cache) (request_at ''GET'' ''/about'') =
     Return \<lparr>req = \<lparr>http_method = ''GET'', url = ''/about'', pathname = ''/about'',
                     params = [], query = []\<rparr>,
             res = \<lparr>statusCode = 200,
                    headers = [''Content-Type'' \<mapsto> ''text/html'',
                               ''Link'' \<mapsto> link_header (client demo_cache) ''about''],
                    written = [demo_render 200
                      [(''scripts'', PStr (main_script (client demo_cache))),
                       (''html'', PStr ''<p>About</p>''),
                       (''head'', PStr (head_slot [])),
                       (''styles'', PStr [])]],
                    ended = True\<rparr>\<rparr>"
    by (simp only: about routed.case)
  from unmatched tests post served show ?thesis by blast
qed

subsection \<open>Endpoints\<close>

lemma find_route_endpoint:
  assumes "route_manager_routes env = before @ route # after"
    and "\<forall>r \<in> set before. \<not> test r (pathname (req c))"
    and "test route (pathname (req c))"
    and "route_type route \<noteq> ''page''"
  shows "find_route_outcome env fn c =
     (let c1 = c\<lparr>res := setHeader ''Content-Type'' ''text/html'' (res c),
                  req := (req c)\<lparr>params := exec route (pathname (req c))\<rparr>\<rparr>
      in case exports (require env (entry (server (fn ()))) (route_id route))
                (method_export (http_method (req c))) of
           Some handler \<Rightarrow>
             (case handler c1 of Inl e \<Rightarrow> catch_error env (pathname (req c)) e c1
              | Inr a \<Rightarrow> Handled a)
         | None \<Rightarrow> Handled (Next c1 Return))"
  using assms
  by (simp add: find_route_outcome_def scan_routes_first_match handle_route_def Let_def
      split: option.splits sum.splits)

text \<open>
  C4. The name of the export is the method in lower case, but \<^verbatim>\<open>del\<close> for
  \<^verbatim>\<open>DELETE\<close>. When the first route that accepts the pathname is not a page: if the
  module has an export of that name, \<open>find_route\<close> does what the export does, called
  with the request (its \<^verbatim>\<open>params\<close> set), the response (its Content-Type set) and
  \<^verbatim>\<open>next\<close>; if it has none, \<open>find_route\<close> calls \<^verbatim>\<open>next\<close>. In the chain of
  \<open>connect_prod\<close> a request that no asset handler takes and whose endpoint has no
  export for the method ends with status 404 and the Not-Found page.
\<close>

theorem endpoint_method_dispatch:
  "method_export ''DELETE'' = ''del'' \<and>
   (toLowerCase m = ''delete'' \<longrightarrow> method_export m = ''del'') \<and>
   (toLowerCase m \<noteq> ''delete'' \<longrightarrow> method_export m = toLowerCase m) \<and>
   (route_manager_routes env = before @ route # after \<and>
    (\<forall>r \<in> set before. \<not> test r (pathname (req c))) \<and> test route (pathname (req c)) \<and>
    route_type route \<noteq> ''page'' \<and>
    exports (require env (entry (server (fn ()))) (route_id route))
      (method_export (http_method (req c))) = Some handler \<and>
    handler (c\<lparr>res := setHeader ''Content-Type'' ''text/html'' (res c),
               req := (req c)\<lparr>params := exec route (pathname (req c))\<rparr>\<rparr>) = Inr a \<longrightarrow>
      find_route env fn c = a) \<and>
   (route_manager_routes env = before @ route # after \<and>
    (\<forall>r \<in> set before. \<not> test r (pathname (req c))) \<and> test route (pathname (req c)) \<and>
    route_type route \<noteq> ''page'' \<and>
    exports (require env (entry (server (fn ()))) (route_id route))
      (method_export (http_method (req c))) = None \<longrightarrow>
      find_route env fn c =
        Next (c\<lparr>res := setHeader ''Content-Type'' ''text/html'' (res c),
                req := (req c)\<lparr>params := exec route (pathname (req c))\<rparr>\<rparr>) Return) \<and>
   (replace_query (url (req d)) = p \<and> p \<noteq> ''/index.html'' \<and> p \<noteq> ''/service-worker.js'' \<and>
    \<not> startsWith p ''/client/'' \<and> \<not> ended (res d) \<and>
    route_manager_routes env = before @ route # after \<and>
    (\<forall>r \<in> set before. \<not> test r p) \<and> test route p \<and> route_type route \<noteq> ''page'' \<and>
    exports (require env (entry (server cache)) (route_id route))
      (method_export (http_method (req d))) = None \<longrightarrow>
      world (connect_prod env cache d nxt) =
        d\<lparr>req := (req d)\<lparr>pathname := p, params := exec route p\<rparr>,
          res := (res d)\<lparr>statusCode := 404,
            headers := (headers (res d))(''Content-Type'' \<mapsto> ''text/html''),
            written := written (res d) @ [templates_render env 404
              [(''title'', PStr ''Not found''), (''status'', PNum 404),
               (''method'', PStr (http_method (req d))),
               (''scripts'', PStr (main_script (client cache))),
               (''url'', PStr (url (req d)))]],
            ended := True\<rparr>\<rparr>)"
proof (intro conjI impI)
  show "method_export ''DELETE'' = ''del''"
    by (simp add: method_export_def toLowerCase_def to_lower_char_def)
next
  assume "toLowerCase m = ''delete''"
  then show "method_export m = ''del''" by (simp add: method_export_def)
next
  assume "toLowerCase m \<noteq> ''delete''"
  then show "method_export m = toLowerCase m" by (simp add: method_export_def)
next
  assume "route_manager_routes env = before @ route # after \<and>
    (\<forall>r \<in> set before. \<not> test r (pathname (req c))) \<and> test route (pathname (req c)) \<and>
    route_type route \<noteq> ''page'' \<and>
    exports (require env (entry (server (fn ()))) (route_id route))
      (method_export (http_method (req c))) = Some handler \<and>
    handler (c\<lparr>res := setHeader ''Content-Type'' ''text/html'' (res c),
               req := (req c)\<lparr>params := exec route (pathname (req c))\<rparr>\<rparr>) = Inr a"
  then show "find_route env fn c = a"
    by (simp add: find_route_def find_route_endpoint[of env before route after c fn])
next
  assume "route_manager_routes env = before @ route # after \<and>
    (\<forall>r \<in> set before. \<not> test r (pathname (req c))) \<and> test route (pathname (req c)) \<and>
    route_type route \<noteq> ''page'' \<and>
    exports (require env (entry (server (fn ()))) (route_id route))
      (method_export (http_method (req c))) = None"
  then show "find_route env fn c =
        Next (c\<lparr>res := setHeader ''Content-Type'' ''text/html'' (res c),
                req := (req c)\<lparr>params := exec route (pathname (req c))\<rparr>\<rparr>) Return"
    by (simp add: find_route_def find_route_endpoint[of env before route after c fn])
next
  assume h: "replace_query (url (req d)) = p \<and> p \<noteq> ''/index.html'' \<and> p \<noteq> ''/service-worker.js'' \<and>
    \<not> startsWith p ''/client/'' \<and> \<not> ended (res d) \<and>
    route_manager_routes env = before @ route # after \<and>
    (\<forall>r \<in> set before. \<not> test r p) \<and> test route p \<and> route_type route \<noteq> ''page'' \<and>
    exports (require env (entry (server cache)) (route_id route))
      (method_export (http_method (req d))) = None"
  let ?d1 = "d\<lparr>req := (req d)\<lparr>pathname := p\<rparr>\<rparr>"
  have "find_route env (\<lambda>u. cache) ?d1 =
      Next (?d1\<lparr>res := setHeader ''Content-Type'' ''text/html'' (res ?d1),
                req := (req ?d1)\<lparr>params := exec route (pathname (req ?d1))\<rparr>\<rparr>) Return"
    using h by (simp add: find_route_def find_route_endpoint[of env before route after ?d1 "\<lambda>u. cache"])
  then show "world (connect_prod env cache d nxt) =
        d\<lparr>req := (req d)\<lparr>pathname := p, params := exec route p\<rparr>,
          res := (res d)\<lparr>statusCode := 404,
            headers := (headers (res d))(''Content-Type'' \<mapsto> ''text/html''),
            written := written (res d) @ [templates_render env 404
              [(''title'', PStr ''Not found''), (''status'', PNum 404),
               (''method'', PStr (http_method (req d))),
               (''scripts'', PStr (main_script (client cache))),
               (''url'', PStr (url (req d)))]],
            ended := True\<rparr>\<rparr>"
    using h
    by (simp add: connect_prod_def compose_handlers_def prod_handlers_def go.simps
      set_req_pathname_def get_asset_handler_def get_route_handler_def
      get_not_found_handler_def handle_not_found_def setHeader_def res_end_def)
qed

theorem endpoint_method_dispatch_witness:
  "method_export ''DELETE'' = ''del'' \<and> method_export ''GET'' = ''get'' \<and>
   find_route demo_env (\<lambda>u. demo_cache) (request_at ''GET'' ''/api/items'') =
     Return ((request_at ''GET'' ''/api/items'')\<lparr>res := fresh_response\<lparr>
        headers := [''Content-Type'' \<mapsto> ''text/html''], written := [''{}''], ended := True\<rparr>\<rparr>) \<and>
   find_route demo_env (\<lambda>u. demo_cache) (request_at ''DELETE'' ''/api/items'') =
     Next ((request_at ''DELETE'' ''/api/items'')\<lparr>res := fresh_response\<lparr>
        headers := [''Content-Type'' \<mapsto> ''text/html'']\<rparr>\<rparr>) Return \<and>
   statusCode (res (world (connect_prod demo_env demo_cache
     (request_for ''DELETE'' ''/api/items'') (\<lambda>w. w)))) = 404"
  using endpoint_method_dispatch[where m = "''GET''" and env = demo_env and fn = "\<lambda>u. demo_cache"
          and c = "request_at ''GET'' ''/api/items''" and before = "take 4 demo_routes"
          and route = "demo_routes ! 4" and after = "drop 5 demo_routes" and handler = api_get
          and a = "Return ((request_at ''GET'' ''/api/items'')\<lparr>res := fresh_response\<lparr>
        headers := [''Content-Type'' \<mapsto> ''text/html''], written := [''{}''], ended := True\<rparr>\<rparr>)"
          and d = "request_for ''DELETE'' ''/api/items''" and p = "''/api/items''"
          and cache = demo_cache and nxt = "\<lambda>w. w"]
     endpoint_method_dispatch[where m = "''GET''" and env = demo_env and fn = "\<lambda>u. demo_cache"
          and c = "request_at ''DELETE'' ''/api/items''" and before = "take 4 demo_routes"
          and route = "demo_routes ! 4" and after = "drop 5 demo_routes"
          and d = "request_for ''DELETE'' ''/api/items''" and p = "''/api/items''"
          and cache = demo_cache and nxt = "\<lambda>w. w"]
  by (simp add: demo_env_def demo_routes_def request_at_def request_for_def startsWith_def
      demo_cache_def demo_require_def api_module_def api_get_def method_export_def toLowerCase_def
      to_lower_char_def fresh_response_def setHeader_def res_end_def)

subsection \<open>compose_handlers\<close>

text \<open>
  C3, as stated, fails for a handler that calls its continuation twice. In
  \<^verbatim>\<open>[proceeds_twice, stops, stops]\<close> the third handler is started by the second call of
  the first handler's continuation, though the second handler never called its own; and
  after \<^verbatim>\<open>[proceeds_twice]\<close> the outer \<^verbatim>\<open>next\<close> is called twice.
\<close>

theorem compose_handlers_counterexample:
  "trace (compose_handlers [proceeds_twice, stops, stops] 0 id) =
     [Start 0, Proceed 0, Start 1, Proceed 0, Start 2] \<and>
   trace (compose_handlers [proceeds_twice] 0 id) =
     [Start 0, Proceed 0, Fallback, Proceed 0, Fallback]"
  by (simp add: compose_handlers_def proceeds_twice_def stops_def go.simps)

lemma in_turn_Suc: "i < j \<Longrightarrow> in_turn i j = Start i # Proceed i # in_turn (Suc i) j"
  by (simp add: in_turn_def upt_conv_Cons)

lemma go_once:
  assumes once: "\<forall>h \<in> set hs. proceeds_at_most_once h"
  shows "cursor st \<le> length hs \<Longrightarrow>
     cursor st \<le> cursor (go hs nxt st) \<and> cursor (go hs nxt st) \<le> length hs \<and>
     trace (go hs nxt st) =
       trace st @ in_turn (cursor st) (cursor (go hs nxt st)) @
       (if cursor (go hs nxt st) < length hs then [Start (cursor (go hs nxt st))] else [Fallback])"
proof (induction "length hs - cursor st" arbitrary: st)
  case 0
  then have "\<not> cursor st < length hs" by simp
  then show ?case using 0 by (simp add: go.simps in_turn_def)
next
  case (Suc n)
  then have lt: "cursor st < length hs" by simp
  let ?i = "cursor st"
  let ?h = "hs ! ?i"
  have h_once: "proceeds_at_most_once ?h" using once lt by simp
  show ?case
  proof (cases "?h (world st)")
    case (Return w)
    with lt show ?thesis by (simp add: go.simps in_turn_def)
  next
    case (Next w c)
    let ?st1 = "st\<lparr>trace := trace st @ [Start ?i], cursor := ?i + 1,
                  trace := (trace st @ [Start ?i]) @ [Proceed ?i], world := w\<rparr>"
    let ?st2 = "go hs nxt ?st1"
    obtain y where y: "c (world ?st2) = Return y"
      using h_once Next unfolding proceeds_at_most_once_def by blast
    have eq: "go hs nxt st = ?st2\<lparr>world := y\<rparr>"
      using lt Next y by (simp add: go.simps Let_def)
    have "n = length hs - cursor ?st1" using Suc.hyps(2) by simp
    moreover have "cursor ?st1 \<le> length hs" using lt by simp
    ultimately have ih: "cursor ?st1 \<le> cursor ?st2 \<and> cursor ?st2 \<le> length hs \<and>
      trace ?st2 = trace ?st1 @ in_turn (cursor ?st1) (cursor ?st2) @
        (if cursor ?st2 < length hs then [Start (cursor ?st2)] else [Fallback])"
      by (rule Suc.hyps(1))
    then have "?i < cursor ?st2" by simp
    then have "in_turn ?i (cursor ?st2) = Start ?i # Proceed ?i # in_turn (Suc ?i) (cursor ?st2)"
      by (rule in_turn_Suc)
    with ih show ?thesis unfolding eq by simp
  qed
qed

lemma filter_in_turn: "length (filter is_proceed (in_turn i j)) = j - i"
proof (induction "j - i" arbitrary: i)
  case 0
  then show ?case by (simp add: in_turn_def)
next
  case (Suc n)
  then have "i < j" by simp
  then show ?case using Suc.hyps(1)[of "Suc i"] Suc.hyps(2) by (simp add: in_turn_Suc)
qed

lemma count_in_turn: "count_list (in_turn i j) Fallback = 0"
  by (simp add: in_turn_def count_list_0_iff)

text \<open>
  C3, amended. For every sequence of handlers that each call their continuation at most
  once, and every request: the trace is handlers 0, 1, ... taking their turns, each
  started only after the one before it called its continuation, up to the cursor; it
  ends with the start of the handler at the cursor, which did not call its
  continuation, or, when the cursor has passed the last handler, with the one call of
  the outer \<^verbatim>\<open>next\<close>. The cursor is the number of continuation calls.
\<close>

theorem compose_handlers_sequential:
  assumes "\<forall>h \<in> set handlers. proceeds_at_most_once h"
  shows "cursor (compose_handlers handlers w nxt) \<le> length handlers \<and>
     trace (compose_handlers handlers w nxt) =
       in_turn 0 (cursor (compose_handlers handlers w nxt)) @
       (if cursor (compose_handlers handlers w nxt) < length handlers
        then [Start (cursor (compose_handlers handlers w nxt))] else [Fallback]) \<and>
     cursor (compose_handlers handlers w nxt) =
       length (filter is_proceed (trace (compose_handlers handlers w nxt))) \<and>
     count_list (trace (compose_handlers handlers w nxt)) Fallback =
       (if cursor (compose_handlers handlers w nxt) = length handlers then 1 else 0)"
proof -
  let ?st0 = "\<lparr>cursor = 0, trace = [], world = w\<rparr>"
  have g: "cursor (go handlers nxt ?st0) \<le> length handlers \<and>
     trace (go handlers nxt ?st0) =
       in_turn 0 (cursor (go handlers nxt ?st0)) @
       (if cursor (go handlers nxt ?st0) < length handlers
        then [Start (cursor (go handlers nxt ?st0))] else [Fallback])"
    using go_once[OF assms, of ?st0 nxt] by simp
  then show ?thesis
    unfolding compose_handlers_def
    by (auto simp: filter_in_turn count_in_turn)
qed

theorem compose_handlers_sequential_witness:
  "proceeds_at_most_once proceeds_once \<and> proceeds_at_most_once stops \<and>
   compose_handlers [proceeds_once, proceeds_once, stops, proceeds_once] 0 id =
     \<lparr>cursor = 2, trace = [Start 0, Proceed 0, Start 1, Proceed 1, Start 2], world = 2\<rparr> \<and>
   compose_handlers [proceeds_once, proceeds_once] 0 id =
     \<lparr>cursor = 2, trace = [Start 0, Proceed 0, Start 1, Proceed 1, Fallback], world = 2\<rparr>"
proof -
  have a: "proceeds_at_most_once proceeds_once"
    by (simp add: proceeds_at_most_once_def proceeds_once_def)
  have b: "proceeds_at_most_once stops"
    by (simp add: proceeds_at_most_once_def stops_def)
  have c: "\<forall>h \<in> set [proceeds_once, proceeds_once, stops, proceeds_once]. proceeds_at_most_once h"
    using a b by simp
  have d: "\<forall>h \<in> set [proceeds_once, proceeds_once]. proceeds_at_most_once h"
    using a by simp
  show ?thesis
    using a b compose_handlers_sequential[OF c, of 0 id] compose_handlers_sequential[OF d, of 0 id]
    by (simp add: compose_handlers_def proceeds_once_def stops_def go.simps)
qed


text \<open>
  Whatever the handlers do, the cursor is the number of continuation calls.
\<close>

lemma go_invoke_counts:
  "\<exists>tr. trace (go hs nxt st) = trace st @ tr \<and>
        cursor (go hs nxt st) = cursor st + length (filter is_proceed tr)"
  "\<exists>tr. trace (invoke hs nxt k a st') = trace st' @ tr \<and>
        cursor (invoke hs nxt k a st') = cursor st' + length (filter is_proceed tr)"
proof (induction hs nxt st and hs nxt k a st' rule: go_invoke.induct)
  case (1 handlers nxt st)
  show ?case
  proof (cases "cursor st < length handlers")
    case True
    from 1[OF True] obtain tr where
      "trace (go handlers nxt st) = (trace st @ [Start (cursor st)]) @ tr"
      "cursor (go handlers nxt st) = cursor st + length (filter is_proceed tr)"
      using True by (auto simp: go.simps)
    then have "trace (go handlers nxt st) = trace st @ (Start (cursor st) # tr) \<and>
      cursor (go handlers nxt st) = cursor st + length (filter is_proceed (Start (cursor st) # tr))"
      by simp
    then show ?thesis by blast
  next
    case False
    then have "trace (go handlers nxt st) = trace st @ [Fallback] \<and>
      cursor (go handlers nxt st) = cursor st + length (filter is_proceed [Fallback])"
      by (simp add: go.simps)
    then show ?thesis by blast
  qed
next
  case (2 handlers nxt k w st)
  have "trace (invoke handlers nxt k (Return w) st) = trace st @ [] \<and>
     cursor (invoke handlers nxt k (Return w) st) = cursor st + length (filter is_proceed [])"
    by simp
  then show ?case by blast
next
  case (3 handlers nxt k w c st)
  let ?st1 = "st\<lparr>cursor := cursor st + 1, trace := trace st @ [Proceed k], world := w\<rparr>"
  let ?st2 = "go handlers nxt ?st1"
  from 3(1) obtain tr1 where t1: "trace ?st2 = trace ?st1 @ tr1"
    "cursor ?st2 = cursor ?st1 + length (filter is_proceed tr1)" by blast
  from 3(2)[OF refl] obtain tr2 where t2:
    "trace (invoke handlers nxt k (c (world ?st2)) ?st2) = trace ?st2 @ tr2"
    "cursor (invoke handlers nxt k (c (world ?st2)) ?st2) = cursor ?st2 + length (filter is_proceed tr2)"
    by blast
  have "trace (invoke handlers nxt k (Next w c) st) = trace st @ (Proceed k # tr1 @ tr2) \<and>
     cursor (invoke handlers nxt k (Next w c) st) =
       cursor st + length (filter is_proceed (Proceed k # tr1 @ tr2))"
    using t1 t2 by (simp add: Let_def)
  then show ?case by blast
qed

lemma compose_handlers_cursor_counts:
  "cursor (compose_handlers handlers w nxt) =
     length (filter is_proceed (trace (compose_handlers handlers w nxt)))"
  using go_invoke_counts(1)[of handlers nxt "\<lparr>cursor = 0, trace = [], world = w\<rparr>"]
  by (auto simp: compose_handlers_def)

subsection \<open>A chunk that is not in the cache\<close>

text \<open>
  C8. A request for \<^verbatim>\<open>/client/missing.js\<close>, which is no key of \<^verbatim>\<open>client.chunks\<close>, does
  not come to the Not-Found handler: the chunk handler (the fourth of the chain) ends
  it, with the status 200 it came with and nothing written; the route handler and the
  Not-Found handler are never started. Where \<open>find_route\<close> has nothing to serve (no
  route, no export for the method) it calls \<^verbatim>\<open>next\<close>; \<open>get_asset_handler\<close> does so
  only when the predicate rejects the pathname.
\<close>

theorem missing_chunk_served_empty:
  "connect_prod demo_env demo_cache (request_for ''GET'' ''/client/missing.js'') id =
     \<lparr>cursor = 3,
      trace = [Start 0, Proceed 0, Start 1, Proceed 1, Start 2, Proceed 2, Start 3],
      world = \<lparr>req = \<lparr>http_method = ''GET'', url = ''/client/missing.js'',
                       pathname = ''/client/missing.js'', params = [], query = []\<rparr>,
               res = \<lparr>statusCode = 200,
                      headers = [''Content-Type'' \<mapsto> ''application/javascript'',
                                 ''Cache-Control'' \<mapsto> ''max-age=31536000''],
                      written = [], ended = True\<rparr>\<rparr>\<rparr>"
  by (simp add: connect_prod_def compose_handlers_def prod_handlers_def go.simps
      set_req_pathname_def get_asset_handler_def setHeader_def res_end_def request_for_def
      fresh_response_def demo_cache_def startsWith_def line_terminator_def)

text \<open>
  The same of every request whose pathname starts with \<^verbatim>\<open>/client/\<close> and is no key of
  \<^verbatim>\<open>client.chunks\<close>.
\<close>

lemma client_path_is_no_document:
  "startsWith p ''/client/'' \<Longrightarrow> p \<noteq> ''/index.html'' \<and> p \<noteq> ''/service-worker.js''"
  by (auto simp: startsWith_def)

lemma missing_chunk_ends_empty:
  assumes "startsWith (replace_query (url (req c))) ''/client/''"
    and "chunks (client cache) (replace_query (url (req c))) = None"
    and "\<not> ended (res c)"
  shows "connect_prod env cache c nxt =
     \<lparr>cursor = 3,
      trace = [Start 0, Proceed 0, Start 1, Proceed 1, Start 2, Proceed 2, Start 3],
      world = c\<lparr>req := (req c)\<lparr>pathname := replace_query (url (req c))\<rparr>,
                res := (res c)\<lparr>
                  headers := (headers (res c))(''Content-Type'' \<mapsto> ''application/javascript'',
                                               ''Cache-Control'' \<mapsto> ''max-age=31536000''),
                  ended := True\<rparr>\<rparr>\<rparr>"
  using assms client_path_is_no_document[OF assms(1)]
  by (simp add: connect_prod_def compose_handlers_def prod_handlers_def go.simps
      set_req_pathname_def get_asset_handler_def setHeader_def res_end_def)

subsection \<open>The streaming assembler\<close>

lemma flush_fulfilled:
  "\<forall>k p. rdy k = Some p \<longrightarrow> p = Fulfilled (vals k) \<Longrightarrow> \<not> ended r \<Longrightarrow>
     (case flush rdy segs r of (p, r', f) \<Rightarrow>
        f = None \<and> written r' @ map (fill vals) p = written r @ map (fill vals) segs \<and>
        (ended r' \<longleftrightarrow> p = []) \<and>
        (p = [] \<or> (\<exists>k rest. p = Hole k # rest \<and> rdy k = None)) \<and>
        statusCode r' = statusCode r \<and> headers r' = headers r)"
proof (induction rdy segs r rule: flush.induct)
  case (1 rdy r)
  then show ?case by (simp add: res_end_def)
next
  case (2 rdy s segs r)
  then show ?case by (simp add: res_write_def fill_def split: prod.splits)
next
  case (3 rdy k segs r)
  show ?case
  proof (cases "rdy k")
    case None
    with 3 show ?thesis by simp
  next
    case (Some p)
    then have p: "p = Fulfilled (vals k)" using 3(2) by blast
    have "\<not> ended (res_write (vals k) r)" using 3(3) by (simp add: res_write_def)
    from 3(1)[OF Some p 3(2) this] show ?thesis
      using Some p 3(3) by (simp add: res_write_def fill_def split: prod.splits)
  qed
qed

lemma stream_inv_start:
  "\<not> ended r \<Longrightarrow> stream_inv vals r tpl [] (flushed Map.empty tpl r)"
  using flush_fulfilled[of Map.empty vals r tpl]
  by (auto simp: stream_inv_def flushed_def split: prod.splits)

lemma stream_inv_settle:
  assumes "stream_inv vals r tpl done a"
  shows "stream_inv vals r tpl (done @ [k]) (settle (\<lambda>k. Fulfilled (vals k)) a k)"
proof (cases "pending a = []")
  case True
  then have e: "ended (out a)" using assms by (simp add: stream_inv_def)
  have "settle (\<lambda>k. Fulfilled (vals k)) a k =
      \<lparr>ready = (ready a)(k \<mapsto> Fulfilled (vals k)), pending = [], out = out a, failure = None\<rparr>"
    using assms True e by (simp add: settle_def stream_inv_def flushed_def res_end_def)
  then show ?thesis using assms True by (auto simp: stream_inv_def)
next
  case False
  then have ne: "\<not> ended (out a)" using assms by (simp add: stream_inv_def)
  let ?rdy = "(ready a)(k \<mapsto> Fulfilled (vals k))"
  have rdy: "\<forall>j p. ?rdy j = Some p \<longrightarrow> p = Fulfilled (vals j)"
    using assms by (auto simp: stream_inv_def)
  obtain p r' f where fl: "flush ?rdy (pending a) (out a) = (p, r', f)"
    by (cases "flush ?rdy (pending a) (out a)") auto
  have st: "settle (\<lambda>k. Fulfilled (vals k)) a k =
      \<lparr>ready = ?rdy, pending = p, out = r', failure = f\<rparr>"
    using assms fl by (simp add: settle_def stream_inv_def flushed_def)
  have "case flush ?rdy (pending a) (out a) of (p, r', f) \<Rightarrow>
        f = None \<and> written r' @ map (fill vals) p = written (out a) @ map (fill vals) (pending a) \<and>
        (ended r' \<longleftrightarrow> p = []) \<and>
        (p = [] \<or> (\<exists>j rest. p = Hole j # rest \<and> ?rdy j = None)) \<and>
        statusCode r' = statusCode (out a) \<and> headers r' = headers (out a)"
    by (rule flush_fulfilled[OF rdy ne])
  then have "f = None \<and> written r' @ map (fill vals) p = written (out a) @ map (fill vals) (pending a) \<and>
        (ended r' \<longleftrightarrow> p = []) \<and>
        (p = [] \<or> (\<exists>j rest. p = Hole j # rest \<and> ?rdy j = None)) \<and>
        statusCode r' = statusCode (out a) \<and> headers r' = headers (out a)"
    unfolding fl prod.case .
  then show ?thesis using assms unfolding st by (auto simp: stream_inv_def)
qed

lemma stream_inv_run:
  "\<not> ended r \<Longrightarrow>
   stream_inv vals r tpl schedule (templates_stream tpl (\<lambda>k. Fulfilled (vals k)) schedule r)"
proof (induction schedule rule: rev_induct)
  case Nil
  then show ?case by (simp add: templates_stream_def stream_inv_start)
next
  case (snoc k ks)
  then show ?case using stream_inv_settle[of vals r tpl ks _ k]
    by (simp add: templates_stream_def)
qed

lemma flush_pending_suffix:
  "case flush rdy segs r of (p, r', f) \<Rightarrow> \<exists>pre. segs = pre @ p"
proof (induction rdy segs r rule: flush.induct)
  case (1 rdy r)
  then show ?case by simp
next
  case (2 rdy s segs r)
  then show ?case by (auto split: prod.splits intro: exI[of _ "Lit s # _"])
next
  case (3 rdy k segs r)
  then show ?case
    by (auto split: prod.splits option.splits promise.splits
        intro: exI[of _ "Hole k # _"] exI[of _ "[]"])
qed


lemma settle_pending_suffix: "\<exists>pre. pending a = pre @ pending (settle slots a k)"
proof (cases "failure a")
  case None
  then show ?thesis
    using flush_pending_suffix[where rdy = "(ready a)(k \<mapsto> slots k)" and segs = "pending a" and r = "out a"]
    by (auto simp: settle_def flushed_def split: prod.splits)
next
  case (Some e)
  then show ?thesis by (simp add: settle_def)
qed

lemma stream_pending_suffix:
  "\<exists>pre. tpl = pre @ pending (templates_stream tpl slots schedule r)"
proof (induction schedule rule: rev_induct)
  case Nil
  then show ?case
    using flush_pending_suffix[where rdy = Map.empty and segs = tpl and r = r]
    by (auto simp: templates_stream_def flushed_def split: prod.splits)
next
  case (snoc k ks)
  then obtain pre where pre: "tpl = pre @ pending (templates_stream tpl slots ks r)" by blast
  obtain pre' where "pending (templates_stream tpl slots ks r) =
      pre' @ pending (settle slots (templates_stream tpl slots ks r) k)"
    using settle_pending_suffix by blast
  with pre have "tpl = (pre @ pre') @ pending (templates_stream tpl slots (ks @ [k]) r)"
    by (simp add: templates_stream_def)
  then show ?case by blast
qed

lemma holes_append: "holes (xs @ ys) = holes xs @ holes ys"
  by (induction xs rule: holes.induct) simp_all

lemma holes_lits: "holes (map Lit ls) = []"
  by (induction ls) simp_all

lemma stream_prefix:
  assumes "\<not> ended r"
  shows "prefix (written (out (templates_stream tpl (\<lambda>k. Fulfilled (vals k)) schedule r)))
           (written r @ map (fill vals) tpl)"
  using stream_inv_run[OF assms, of vals tpl schedule]
  by (metis prefixI stream_inv_def)

lemma stream_complete:
  assumes "\<not> ended r" and "set (holes tpl) \<subseteq> set schedule"
  shows "out (templates_stream tpl (\<lambda>k. Fulfilled (vals k)) schedule r) =
           r\<lparr>written := written r @ map (fill vals) tpl, ended := True\<rparr> \<and>
         failure (templates_stream tpl (\<lambda>k. Fulfilled (vals k)) schedule r) = None"
proof -
  let ?a = "templates_stream tpl (\<lambda>k. Fulfilled (vals k)) schedule r"
  have inv: "stream_inv vals r tpl schedule ?a" by (rule stream_inv_run[OF assms(1)])
  have "pending ?a = []"
  proof (rule ccontr)
    assume "pending ?a \<noteq> []"
    then obtain k rest where k: "pending ?a = Hole k # rest" "ready ?a k = None"
      using inv by (auto simp: stream_inv_def)
    obtain pre where "tpl = pre @ pending ?a" using stream_pending_suffix by blast
    then have "k \<in> set (holes tpl)" using k(1) by (metis holes_append holes.simps(3) in_set_conv_decomp)
    then have "k \<in> set schedule" using assms(2) by blast
    then have "ready ?a k \<noteq> None" using inv by (simp add: stream_inv_def)
    with k(2) show False by simp
  qed
  then have "written (out ?a) = written r @ map (fill vals) tpl" "ended (out ?a)"
    "statusCode (out ?a) = statusCode r" "headers (out ?a) = headers r" "failure ?a = None"
    using inv by (simp_all add: stream_inv_def)
  then show ?thesis by simp
qed

lemma page_slots_fulfilled:
  "page_slots cl (Fulfilled (rd, ser)) = (\<lambda>k. Fulfilled (slot_text cl rd ser k))"
  by (rule ext) (simp add: page_slots_def)

text \<open>
  C2. For a page with \<^verbatim>\<open>preload\<close> whose shared promise is fulfilled, the four slots are
  \<open>page_slots\<close> of what it was fulfilled with. Whatever the order in which the four
  slots complete (any schedule in which each of them occurs), a template that has the
  holes in the order scripts, html, head, styles, with literal pieces around them, is
  written with the slots' texts in that order. And at every moment (after any number
  \<open>n\<close> of completions) what has been written is a prefix of that text: a slot's
  text is written only after everything before it in the template, the text of the
  slot before it included, even when the slot completed earlier. (The lemmas
  \<open>stream_complete\<close> and \<open>stream_prefix\<close> say the same of any template, in the order
  of its holes.)
\<close>

theorem stream_slots_in_order:
  assumes "tpl = map Lit l0 @ Hole Scripts # map Lit l1 @ Hole Html # map Lit l2 @
                 Hole Head # map Lit l3 @ Hole Styles # map Lit l4"
    and "set schedule = {Scripts, Html, Head, Styles}"
    and "\<not> ended r"
  shows "written (out (templates_stream tpl (page_slots cl (Fulfilled (rd, ser))) schedule r)) =
           written r @ l0 @ scripts_slot cl ser # l1 @ html rd # l2 @ head_slot (head rd) # l3 @
             styles_slot (css rd) # l4 \<and>
         (\<forall>n \<le> length schedule.
            prefix (written (out (templates_stream tpl (page_slots cl (Fulfilled (rd, ser)))
                      (take n schedule) r)))
              (written r @ l0 @ scripts_slot cl ser # l1 @ html rd # l2 @ head_slot (head rd) # l3 @
                 styles_slot (css rd) # l4))"
proof -
  have lits: "map (fill (slot_text cl rd ser)) (map Lit ls) = ls" for ls
    by (induction ls) (simp_all add: fill_def)
  have w: "map (fill (slot_text cl rd ser)) tpl =
      l0 @ scripts_slot cl ser # l1 @ html rd # l2 @ head_slot (head rd) # l3 @ styles_slot (css rd) # l4"
    unfolding assms(1) by (simp add: lits del: map_map) (simp add: fill_def slot_text_def)
  have h: "set (holes tpl) \<subseteq> set schedule"
    unfolding assms(1) assms(2) by (simp add: holes_append holes_lits)
  show ?thesis
    using stream_complete[OF assms(3) h, of "slot_text cl rd ser"]
      stream_prefix[OF assms(3), of tpl "slot_text cl rd ser"]
    by (simp add: page_slots_fulfilled w)
qed


theorem stream_slots_in_order_witness:
  "written (out (templates_stream (demo_template 200)
      (page_slots (client demo_cache) (Fulfilled (demo_rendered, Some ''{}'')))
      [Head, Scripts, Styles, Html] fresh_response)) =
     [''<html>'', scripts_slot (client demo_cache) (Some ''{}''), ''<body>'', ''<h1>Hello</h1>'',
      ''</body><head>'', head_slot ''<title>Blog</title>'', styles_slot (Some \<lparr>code = Some ''h1{}''\<rparr>),
      ''</head></html>''] \<and>
   written (out (templates_stream (demo_template 200)
      (page_slots (client demo_cache) (Fulfilled (demo_rendered, Some ''{}'')))
      (take 1 [Head, Scripts, Styles, Html]) fresh_response)) = [''<html>''] \<and>
   written (out (templates_stream (demo_template 200)
      (page_slots (client demo_cache) (Fulfilled (demo_rendered, Some ''{}'')))
      (take 2 [Head, Scripts, Styles, Html]) fresh_response)) =
     [''<html>'', scripts_slot (client demo_cache) (Some ''{}''), ''<body>'']"
  using stream_slots_in_order[where tpl = "demo_template 200" and ?l0.0 = "[''<html>'']"
      and ?l1.0 = "[''<body>'']" and ?l2.0 = "[''</body><head>'']" and ?l3.0 = "[]"
      and ?l4.0 = "[''</head></html>'']" and schedule = "[Head, Scripts, Styles, Html]"
      and r = fresh_response and cl = "client demo_cache" and rd = demo_rendered
      and ser = "Some ''{}''"]
  by (simp add: demo_template_def fresh_response_def demo_rendered_def templates_stream_def
      flushed_def settle_def page_slots_def slot_text_def res_write_def res_end_def)

subsection \<open>Serialization of preloaded data\<close>

lemma registration_order_all: "set (holes tpl) \<subseteq> set registration_order"
proof
  fix k assume "k \<in> set (holes tpl)"
  show "k \<in> set registration_order" by (cases k) (simp_all add: registration_order_def)
qed

lemma handle_route_preloaded:
  assumes "route_type route = ''page''"
    and "preload (require env (entry (server cache)) (route_id route)) = Some pre"
    and "pre (req (page_ctx route c cache)) = Resolves v"
    and "render (require env (entry (server cache)) (route_id route)) (page_data route c ++ v) = Inr rd"
    and "\<not> ended (res c)"
  shows "handle_route env route c cache =
     Done (Return ((page_ctx route c cache)\<lparr>res := (res (page_ctx route c cache))\<lparr>
       written := written (res c) @
         map (fill (slot_text (client cache) rd (try_serialize (serialize env) v)))
           (templates_template env 200),
       ended := True\<rparr>\<rparr>))"
proof -
  let ?r = "res (page_ctx route c cache)"
  have ne: "\<not> ended ?r" using assms(5) by (simp add: page_ctx_def setHeader_def)
  have w: "written ?r = written (res c)" by (simp add: page_ctx_def setHeader_def)
  note sc = stream_complete[OF ne registration_order_all,
      of "templates_template env 200" "slot_text (client cache) rd (try_serialize (serialize env) v)"]
  show ?thesis
    using assms(1-4) sc w unfolding page_ctx_def page_data_def
    by (simp add: handle_route_def Let_def promise_resolve_def preload_then_def
        page_slots_fulfilled)
qed

text \<open>
  C5. For a page route whose \<^verbatim>\<open>preload\<close> resolves to \<open>v\<close> and whose \<^verbatim>\<open>render\<close> returns:
  when \<^verbatim>\<open>serialize\<close> throws on \<open>v\<close>, \<open>try_serialize\<close> returns null, \<open>handle_route\<close>
  raises nothing (it is \<open>Done\<close>, so the \<^verbatim>\<open>catch\<close> of \<open>find_route\<close> is not reached)
  and the document is written and ended with the scripts slot being exactly the tag of
  the main file; when \<^verbatim>\<open>serialize\<close> returns a text (the source text of a value is not
  empty), the scripts slot is the inline script that assigns \<^verbatim>\<open>__SAPPER__\<close>, followed
  by the tag of the main file.
\<close>

theorem serialize_failure_degrades:
  assumes "route_type route = ''page''"
    and "preload (require env (entry (server cache)) (route_id route)) = Some pre"
    and "pre (req (page_ctx route c cache)) = Resolves v"
    and "render (require env (entry (server cache)) (route_id route)) (page_data route c ++ v) = Inr rd"
    and "\<not> ended (res c)"
  shows "(serialize env v = Inl e \<longrightarrow>
            try_serialize (serialize env) v = None \<and>
            slot_text (client cache) rd None Scripts = main_script (client cache) \<and>
            handle_route env route c cache =
              Done (Return ((page_ctx route c cache)\<lparr>res := (res (page_ctx route c cache))\<lparr>
                written := written (res c) @
                  map (fill (slot_text (client cache) rd None)) (templates_template env 200),
                ended := True\<rparr>\<rparr>))) \<and>
         (serialize env v = Inr s \<and> s \<noteq> [] \<longrightarrow>
            try_serialize (serialize env) v = Some s \<and>
            slot_text (client cache) rd (Some s) Scripts =
              ''<script>__SAPPER__ = { preloaded: '' @ s @ '' };</script>'' @ main_script (client cache) \<and>
            handle_route env route c cache =
              Done (Return ((page_ctx route c cache)\<lparr>res := (res (page_ctx route c cache))\<lparr>
                written := written (res c) @
                  map (fill (slot_text (client cache) rd (Some s))) (templates_template env 200),
                ended := True\<rparr>\<rparr>)))"
  using handle_route_preloaded[OF assms]
  by (auto simp: try_serialize_def slot_text_def scripts_slot_def)


theorem serialize_failure_degrades_witness:
  "serialize demo_env [''self'' \<mapsto> ''[Circular]''] =
     Inl (Thrown (Some ''TypeError'') None (Some ''Converting circular structure to JSON'')
           ''TypeError: Converting circular structure to JSON''
           (Some ''TypeError: Converting circular structure to JSON'')) \<and>
   handle_route demo_env (demo_routes ! 5) (request_at ''GET'' ''/cyclic'') demo_cache =
     Done (Return ((page_ctx (demo_routes ! 5) (request_at ''GET'' ''/cyclic'') demo_cache)\<lparr>res :=
       (res (page_ctx (demo_routes ! 5) (request_at ''GET'' ''/cyclic'') demo_cache))\<lparr>
         written := [''<html>'', ''<script src='' @ [CHR 0x27] @ ''/client/main.js'' @ [CHR 0x27] @ ''></script>'',
                     ''<body>'', ''<h1>Hello</h1>'', ''</body><head>'',
                     head_slot ''<title>Blog</title>'', ''<style>h1{}</style>'', ''</head></html>''],
         ended := True\<rparr>\<rparr>)) \<and>
   serialize demo_env [''title'' \<mapsto> ''Hello''] = Inr ''{title:Hello}'' \<and>
   handle_route demo_env (demo_routes ! 1) (request_at ''GET'' ''/blog/1'') demo_cache =
     Done (Return ((page_ctx (demo_routes ! 1) (request_at ''GET'' ''/blog/1'') demo_cache)\<lparr>res :=
       (res (page_ctx (demo_routes ! 1) (request_at ''GET'' ''/blog/1'') demo_cache))\<lparr>
         written := [''<html>'',
                     ''<script>__SAPPER__ = { preloaded: {title:Hello} };</script>'' @
                     ''<script src='' @ [CHR 0x27] @ ''/client/main.js'' @ [CHR 0x27] @ ''></script>'',
                     ''<body>'', ''<h1>Hello</h1>'', ''</body><head>'',
                     head_slot ''<title>Blog</title>'', ''<style>h1{}</style>'', ''</head></html>''],
         ended := True\<rparr>\<rparr>))"
  using serialize_failure_degrades[where env = demo_env and route = "demo_routes ! 5"
      and cache = demo_cache and c = "request_at ''GET'' ''/cyclic''"
      and pre = "\<lambda>rq. Resolves [''self'' \<mapsto> ''[Circular]'']"
      and v = "[''self'' \<mapsto> ''[Circular]'']" and rd = demo_rendered
      and e = "Thrown (Some ''TypeError'') None (Some ''Converting circular structure to JSON'')
           ''TypeError: Converting circular structure to JSON''
           (Some ''TypeError: Converting circular structure to JSON'')"
      and s = "''{title:Hello}''"]
    serialize_failure_degrades[where env = demo_env and route = "demo_routes ! 1"
      and cache = demo_cache and c = "request_at ''GET'' ''/blog/1''"
      and pre = "\<lambda>rq. Resolves [''title'' \<mapsto> ''Hello'']"
      and v = "[''title'' \<mapsto> ''Hello'']" and rd = demo_rendered
      and e = Falsy and s = "''{title:Hello}''"]
  by (simp add: demo_env_def demo_routes_def demo_require_def cyclic_module_def blog_module_def
      demo_serialize_def demo_rendered_def demo_cache_def request_at_def fresh_response_def
      demo_template_def fill_def slot_text_def scripts_slot_def main_script_def styles_slot_def
      page_data_def)

subsection \<open>The catch of find_route\<close>

text \<open>
  C7. A page whose \<^verbatim>\<open>render\<close> throws the string \<^verbatim>\<open>'boom'\<close>: a value without a stack.
  The \<^verbatim>\<open>catch\<close> sets the status to 500 and then throws itself, at
  \<^verbatim>\<open>err.stack.split\<close>: no error page is rendered, nothing is written and the response
  is never ended.
\<close>

theorem catch_throws_without_stack:
  "find_route_outcome demo_env (\<lambda>u. demo_cache) (request_at ''GET'' ''/broken'') =
     CatchThrew
       \<lparr>req = \<lparr>http_method = ''GET'', url = ''/broken'', pathname = ''/broken'', params = [], query = []\<rparr>,
        res = \<lparr>statusCode = 500,
               headers = [''Content-Type'' \<mapsto> ''text/html'',
                          ''Link'' \<mapsto> link_header (client demo_cache) ''broken''],
               written = [], ended = False\<rparr>\<rparr>"
  by (simp add: find_route_outcome_def demo_env_def demo_routes_def demo_require_def
      broken_module_def boom_def request_at_def fresh_response_def handle_route_def
      catch_error_def error_stack_def setHeader_def demo_cache_def Let_def startsWith_def)

text \<open>
  C6. A page whose \<^verbatim>\<open>render\<close> throws a plain object with a message, through the whole
  chain of \<open>connect_prod\<close>: the response is left with status 500 set, no body (the
  escaped message is not in it) and not ended. The cause is that of C7.
\<close>

theorem uncaught_error_leaves_no_body:
  "res (world (connect_prod demo_env demo_cache (request_for ''GET'' ''/unsafe'') id)) =
     \<lparr>statusCode = 500,
      headers = [''Content-Type'' \<mapsto> ''text/html'',
                 ''Link'' \<mapsto> link_header (client demo_cache) ''unsafe''],
      written = [], ended = False\<rparr>"
  by (simp add: connect_prod_def compose_handlers_def prod_handlers_def go.simps
      set_req_pathname_def get_asset_handler_def get_route_handler_def find_route_def
      find_route_outcome_def demo_env_def demo_routes_def demo_require_def
      unsafe_module_def unsafe_object_def request_for_def fresh_response_def handle_route_def
      catch_error_def error_stack_def setHeader_def demo_cache_def Let_def startsWith_def
      line_terminator_def)

text \<open>
  What the \<^verbatim>\<open>catch\<close> does for a value that has a stack: the stack it passes on is the
  stack without its first line, and the page is rendered with the escaped detail, the
  detail being \<^verbatim>\<open>details\<close>, else \<^verbatim>\<open>message\<close>, else the value itself.
\<close>

lemma split_lf_nonempty: "split_lf s \<noteq> []"
  by (induction s) (auto split: list.splits)

lemma join_split_lf: "join_lf (split_lf s) = s"
proof (induction s)
  case Nil
  show ?case by simp
next
  case (Cons ch s)
  obtain l ls where sp: "split_lf s = l # ls"
    using split_lf_nonempty[of s] by (cases "split_lf s") auto
  with Cons show ?case by (cases ls) (auto split: if_splits)
qed

lemma error_stack_drops_first_line:
  "error_stack (Thrown n d m t (Some s)) = Some (PStr (tl (dropWhile (\<lambda>ch. ch \<noteq> CHR 0x0A) s)))"
proof -
  have "join_lf (drop 1 (split_lf s)) = tl (dropWhile (\<lambda>ch. ch \<noteq> CHR 0x0A) s)"
  proof (induction s)
    case Nil
    show ?case by simp
  next
    case (Cons ch s)
    show ?case
    proof (cases "ch = CHR 0x0A")
      case True
      then show ?thesis by (simp add: join_split_lf)
    next
      case False
      then show ?thesis using Cons split_lf_nonempty[of s] by (auto split: list.splits)
    qed
  qed
  then show ?thesis by (simp add: error_stack_def)
qed

lemma catch_error_renders:
  assumes "error_stack err = Some st" and "\<not> ended (res w)"
  shows "catch_error env u err w =
     Rendered500 (w\<lparr>res := (res w)\<lparr>statusCode := 500,
       written := written (res w) @ [templates_render env 500
         [(''title'', PStr (error_title err)), (''url'', PStr u),
          (''error'', PStr (escape_html env (error_detail err))), (''stack'', st)]],
       ended := True\<rparr>\<rparr>)"
  using assms by (simp add: catch_error_def res_end_def Let_def)

lemma find_route_render_throws:
  assumes "route_manager_routes env = before @ route # after"
    and "\<forall>r \<in> set before. \<not> test r (pathname (req c))"
    and "test route (pathname (req c))"
    and "route_type route = ''page''"
    and "preload (require env (entry (server (fn ()))) (route_id route)) = None"
    and "render (require env (entry (server (fn ()))) (route_id route))
           (page_data route (as_html c)) = Inl err"
    and "error_stack err = Some st"
    and "\<not> ended (res c)"
  shows "find_route_outcome env fn c =
     Rendered500 ((page_ctx route (as_html c) (fn ()))\<lparr>res :=
       (res (page_ctx route (as_html c) (fn ())))\<lparr>statusCode := 500,
          written := written (res c) @ [templates_render env 500
            [(''title'', PStr (error_title err)), (''url'', PStr (pathname (req c))),
             (''error'', PStr (escape_html env (error_detail err))), (''stack'', st)]],
          ended := True\<rparr>\<rparr>)"
proof -
  have "handle_route env route (as_html c) (fn ()) = Raised err (page_ctx route (as_html c) (fn ()))"
    using assms(4-6) unfolding page_ctx_def page_data_def as_html_def
    by (simp add: handle_route_def Let_def)
  moreover have "\<not> ended (res (page_ctx route (as_html c) (fn ())))"
    using assms(8) by (simp add: page_ctx_def as_html_def setHeader_def)
  moreover have "written (res (page_ctx route (as_html c) (fn ()))) = written (res c)"
    by (simp add: page_ctx_def as_html_def setHeader_def)
  ultimately show ?thesis
    using assms(1-3,7)
    by (simp add: find_route_outcome_def scan_routes_first_match catch_error_renders
        as_html_def[symmetric])
qed

lemma catch_error_without_stack:
  "catch_error env u (Thrown n d m t None) w = CatchThrew (w\<lparr>res := (res w)\<lparr>statusCode := 500\<rparr>\<rparr>)"
  by (simp add: catch_error_def error_stack_def Let_def)

lemma error_detail_prefers:
  "error_detail (Thrown n (Some (x # xs)) m t s) = x # xs"
  "error_detail (Thrown n None (Some (y # ys)) t s) = y # ys"
  "error_detail (Thrown n None None t s) = t"
  "error_detail Falsy = ''Unknown error''"
  by (simp_all add: error_detail_def truthy_def)

end
